theory Spec2Isabelle
  imports Complex_Main "HOL-Library.Word"
begin

unbundle bit_operations_syntax

text \<open>
  A model of the core of the website auditor: the address check, the rate limiter and
  the handler of pages/api/run-audit.js, the fetch wrapper of lib/fetcher.js, the
  performance analyzer of lib/perf.js, the audit files of lib/storage.js, the lookup of
  pages/api/chat-analyst.js and the answer chain of lib/ai.js. Asynchronous functions
  are functions of the outcomes of the operations they await; a rejected promise and a
  thrown exception are the left injection of a sum.
\<close>

section \<open>JavaScript values and built-ins\<close>

text \<open>
  Strings are lists of 8-bit characters; they coincide with the source's strings on
  ASCII text, and a character outside ASCII is the sequence of its UTF-8 bytes.
\<close>

datatype js_error =
    JsError string | TypeError string | SyntaxError string | SystemError string | AbortError

text \<open>\<open>String.prototype.trim\<close>, for the ASCII white space characters.\<close>

definition js_whitespace :: "char \<Rightarrow> bool" where
  "js_whitespace c = (c \<in> set [CHR 0x09, CHR 0x0A, CHR 0x0B, CHR 0x0C, CHR 0x0D, CHR '' ''])"

definition trim :: "string \<Rightarrow> string" where
  "trim s = rev (dropWhile js_whitespace (rev (dropWhile js_whitespace s)))"

definition startsWith :: "string \<Rightarrow> string \<Rightarrow> bool" where
  "startsWith s p = (take (length p) s = p)"

fun js_includes :: "string \<Rightarrow> string \<Rightarrow> bool" where
  "js_includes [] p = (p = [])"
| "js_includes (c # cs) p = (startsWith (c # cs) p \<or> js_includes cs p)"

definition lower_char :: "char \<Rightarrow> char" where
  "lower_char c =
     (let n = (of_char c :: nat) in if 65 \<le> n \<and> n \<le> 90 then char_of (n + 32) else c)"

definition toLowerCase :: "string \<Rightarrow> string" where
  "toLowerCase s = map lower_char s"

text \<open>\<open>s.split(d)\<close> for a one-character separator: never empty, \<open>"".split(d) = [""]\<close>.\<close>

fun split_on :: "char \<Rightarrow> string \<Rightarrow> string list" where
  "split_on d [] = [[]]"
| "split_on d (c # cs) =
     (if c = d then [] # split_on d cs
      else (case split_on d cs of [] \<Rightarrow> [[c]] | w # ws \<Rightarrow> (c # w) # ws))"

text \<open>\<open>xs.join(sep)\<close> on strings.\<close>

fun join :: "string \<Rightarrow> string list \<Rightarrow> string" where
  "join sep [] = []"
| "join sep [x] = x"
| "join sep (x # y # ys) = x @ sep @ join sep (y # ys)"

text \<open>
  A JSON value, as \<open>JSON.parse\<close> returns it. An object is the list of its own properties
  in the order of \<open>Object.keys\<close>. \<open>JFun\<close> is a value that is no JSON value and is only
  reached through the prototype chain (a built-in function or a prototype object); it
  carries the text that \<open>String\<close> gives for it.
\<close>

datatype json =
    JNull | JBool bool | JNum rat | JStr string | JArr "json list"
  | JObj "(string \<times> json) list" | JFun string

fun truthy :: "json \<Rightarrow> bool" where
  "truthy JNull = False"
| "truthy (JBool b) = b"
| "truthy (JNum n) = (n \<noteq> 0)"
| "truthy (JStr s) = (s \<noteq> [])"
| "truthy (JArr xs) = True"
| "truthy (JObj kvs) = True"
| "truthy (JFun f) = True"

text \<open>
  The built-ins of the language and the platform that the source calls and that are not
  modelled further: \<open>JSON.parse\<close> (\<open>None\<close> when it throws), \<open>JSON.stringify\<close>, the
  conversion of a number to a string, \<open>new URL\<close> (\<open>None\<close> when it throws),
  \<open>encodeURIComponent\<close>, and the property that a value inherits under a name through
  its prototype chain (\<open>None\<close> when there is none; for an object and the name
  \<open>toString\<close>, say, it is a function).
\<close>

record url =
  protocol :: string
  hostname :: string

record builtins =
  json_parse :: "string \<Rightarrow> json option"
  json_stringify :: "json \<Rightarrow> string"
  number_to_string :: "rat \<Rightarrow> string"
  new_URL :: "string \<Rightarrow> url option"
  encodeURIComponent :: "string \<Rightarrow> string"
  inherited :: "json \<Rightarrow> string \<Rightarrow> json option"

text \<open>The results of a list of steps, or the error of the first step that throws.\<close>

fun collect :: "(js_error + 'a) list \<Rightarrow> js_error + 'a list" where
  "collect [] = Inr []"
| "collect (Inl e # rs) = Inl e"
| "collect (Inr x # rs) = (case collect rs of Inl e \<Rightarrow> Inl e | Inr xs \<Rightarrow> Inr (x # xs))"

text \<open>
  \<open>String(v)\<close>. An array is the comma-joined list of its elements, where \<open>null\<close> gives
  the empty string. A plain object gives \<open>[object Object]\<close> through the \<open>toString\<close> it
  inherits; when it has an own property \<open>toString\<close>, that property is a JSON value and
  not callable, \<open>valueOf\<close> yields no primitive either, and the conversion throws a type
  error. The error of an element is the error of the array.
\<close>

fun js_String :: "builtins \<Rightarrow> json \<Rightarrow> js_error + string" where
  "js_String b JNull = Inr ''null''"
| "js_String b (JBool v) = Inr (if v then ''true'' else ''false'')"
| "js_String b (JNum n) = Inr (number_to_string b n)"
| "js_String b (JStr s) = Inr s"
| "js_String b (JArr xs) =
     (case collect (map (\<lambda>x. if x = JNull then Inr [] else js_String b x) xs) of
        Inl e \<Rightarrow> Inl e
      | Inr ts \<Rightarrow> Inr (join '','' ts))"
| "js_String b (JObj kvs) =
     (if ''toString'' \<in> set (map fst kvs)
      then Inl (TypeError ''Cannot convert object to primitive value'')
      else Inr ''[object Object]'')"
| "js_String b (JFun f) = Inr f"

text \<open>
  An array index written as a property name: a decimal numeral without a leading zero.
\<close>

definition digit_value :: "char \<Rightarrow> nat option" where
  "digit_value c =
     (let n = (of_char c :: nat) in if 48 \<le> n \<and> n \<le> 57 then Some (n - 48) else None)"

fun digits_value :: "nat \<Rightarrow> string \<Rightarrow> nat option" where
  "digits_value acc [] = Some acc"
| "digits_value acc (c # cs) =
     (case digit_value c of None \<Rightarrow> None | Some d \<Rightarrow> digits_value (10 * acc + d) cs)"

definition array_index :: "string \<Rightarrow> nat option" where
  "array_index key =
     (if key = [] \<or> (hd key = CHR ''0'' \<and> key \<noteq> ''0'') then None else digits_value 0 key)"

text \<open>
  The own properties of a value: those of an object, the elements and the length of an
  array, the characters and the length of a string. \<open>None\<close> is \<open>undefined\<close>.
\<close>

fun own_property :: "json \<Rightarrow> string \<Rightarrow> json option" where
  "own_property (JObj kvs) key = map_of kvs key"
| "own_property (JArr xs) key =
     (if key = ''length'' then Some (JNum (of_nat (length xs)))
      else (case array_index key of
              None \<Rightarrow> None
            | Some i \<Rightarrow> if i < length xs then Some (xs ! i) else None))"
| "own_property (JStr s) key =
     (if key = ''length'' then Some (JNum (of_nat (length s)))
      else (case array_index key of
              None \<Rightarrow> None
            | Some i \<Rightarrow> if i < length s then Some (JStr [s ! i]) else None))"
| "own_property v key = None"

text \<open>\<open>v[key]\<close> for a value \<open>v\<close> other than \<open>null\<close>.\<close>

definition js_get :: "builtins \<Rightarrow> json \<Rightarrow> string \<Rightarrow> json option" where
  "js_get b v key =
     (case own_property v key of Some x \<Rightarrow> Some x | None \<Rightarrow> inherited b v key)"

text \<open>A value that is present and truthy.\<close>

definition truthy_value :: "json option \<Rightarrow> json option" where
  "truthy_value x = (case x of None \<Rightarrow> None | Some v \<Rightarrow> if truthy v then Some v else None)"


section \<open>Address classification used by the SSRF check\<close>

text \<open>
  \<open>ipaddr.parse\<close> yields an IPv4 address (four octets, here a 32-bit word) or an IPv6
  address (eight 16-bit parts, here a 128-bit word). \<open>range()\<close>, here \<open>addr_range\<close>,
  returns the name of the first special range of the library's table that contains the
  address. The library is a dependency of the repository. The source only asks whether the name is one of
  \<open>private\<close>, \<open>loopback\<close>, \<open>linkLocal\<close>, \<open>carrierGradeNat\<close>, \<open>uniqueLocal\<close>, and
  whether it is \<open>ipv4Mapped\<close>; these six ranges are disjoint from each other and from
  every other range of the table, so all other names (\<open>unspecified\<close>, \<open>broadcast\<close>,
  \<open>multicast\<close>, \<open>reserved\<close>, \<open>unicast\<close>, ...) are one constructor here.
\<close>

datatype ip_addr = IPv4 "32 word" | IPv6 "128 word"

datatype ip_range =
  LinkLocal | Loopback | CarrierGradeNat | Private | UniqueLocal | Ipv4Mapped | OtherRange

definition match4 :: "32 word \<Rightarrow> 32 word \<Rightarrow> nat \<Rightarrow> bool" where
  "match4 a net bits = (drop_bit (32 - bits) a = drop_bit (32 - bits) net)"

definition match6 :: "128 word \<Rightarrow> 128 word \<Rightarrow> nat \<Rightarrow> bool" where
  "match6 a net bits = (drop_bit (128 - bits) a = drop_bit (128 - bits) net)"

text \<open>
  IPv4: linkLocal 169.254.0.0/16, loopback 127.0.0.0/8, carrierGradeNat 100.64.0.0/10,
  private 10.0.0.0/8, 172.16.0.0/12 and 192.168.0.0/16.
\<close>

definition range4 :: "32 word \<Rightarrow> ip_range" where
  "range4 a =
     (if match4 a 0xA9FE0000 16 then LinkLocal
      else if match4 a 0x7F000000 8 then Loopback
      else if match4 a 0x64400000 10 then CarrierGradeNat
      else if match4 a 0x0A000000 8 \<or> match4 a 0xAC100000 12 \<or> match4 a 0xC0A80000 16
        then Private
      else OtherRange)"

text \<open>
  IPv6: linkLocal fe80::/10, loopback ::1/128, uniqueLocal fc00::/7,
  ipv4Mapped ::ffff:0:0/96.
\<close>

definition range6 :: "128 word \<Rightarrow> ip_range" where
  "range6 a =
     (if match6 a 0xFE800000000000000000000000000000 10 then LinkLocal
      else if match6 a 1 128 then Loopback
      else if match6 a 0xFC000000000000000000000000000000 7 then UniqueLocal
      else if match6 a 0x00000000000000000000FFFF00000000 96 then Ipv4Mapped
      else OtherRange)"

fun addr_range :: "ip_addr \<Rightarrow> ip_range" where
  "addr_range (IPv4 a) = range4 a"
| "addr_range (IPv6 a) = range6 a"

definition isIPv4MappedAddress :: "128 word \<Rightarrow> bool" where
  "isIPv4MappedAddress a = (range6 a = Ipv4Mapped)"

text \<open>\<open>toIPv4Address\<close> keeps the last two 16-bit parts, that is the low 32 bits.\<close>

definition toIPv4Address :: "128 word \<Rightarrow> 32 word" where
  "toIPv4Address a = ucast a"

section \<open>isPrivateAddress of pages/api/run-audit.js\<close>

text \<open>
  \<open>dns.lookup(hostname, {all: true})\<close> either rejects (\<open>None\<close>) or resolves to a list of
  addresses. Each address string is handed to \<open>ipaddr.parse\<close>, which throws on a string
  that is no address (\<open>None\<close> in the list) or returns the parsed address. The callback of
  \<open>some\<close> is \<open>address_disallowed\<close>.
\<close>

type_synonym dns_answer = "ip_addr option list option"

definition address_disallowed :: "ip_addr option \<Rightarrow> bool" where
  "address_disallowed a =
     (case a of
        None \<Rightarrow> False
      | Some parsed \<Rightarrow>
          if addr_range parsed \<in> set [Private, Loopback, LinkLocal, CarrierGradeNat, UniqueLocal]
          then True
          else
            (case parsed of
               IPv6 w \<Rightarrow>
                 if isIPv4MappedAddress w
                 then addr_range (IPv4 (toIPv4Address w)) \<in> set [Private, Loopback]
                 else False
             | IPv4 w \<Rightarrow> False))"

definition isPrivateAddress :: "dns_answer \<Rightarrow> bool" where
  "isPrivateAddress answer =
     (case answer of
        None \<Rightarrow> False
      | Some addrs \<Rightarrow> list_ex address_disallowed addrs)"

section \<open>Rate limiter of pages/api/run-audit.js\<close>

text \<open>
  The limiter is a module-level \<open>Map\<close> from the client identity to a record
  \<open>{count, windowStart}\<close>. \<open>Date.now()\<close> is an integer number of milliseconds and is
  passed in as \<open>now\<close>. The quotient \<open>retryAfter\<close> is kept as an exact rational.
\<close>

definition RATE_LIMIT_WINDOW_MS :: int where
  "RATE_LIMIT_WINDOW_MS = 60000"

definition RATE_LIMIT_MAX :: int where
  "RATE_LIMIT_MAX = 10"

record rate_window =
  count :: int
  windowStart :: int

datatype rl_result = Allowed (remaining: int) | Denied (retryAfter: rat)

type_synonym limiter = "string \<rightharpoonup> rate_window"

text \<open>
  \<open>rec.count++\<close> mutates the object held by the map, so the incremented count is
  stored on the denying path too, although \<open>limiter.set\<close> is only called on the
  admitting one.
\<close>

definition rateLimit :: "int \<Rightarrow> limiter \<Rightarrow> string \<Rightarrow> rl_result \<times> limiter" where
  "rateLimit now tbl ip =
     (case tbl ip of
        None \<Rightarrow>
          (Allowed (RATE_LIMIT_MAX - 1), tbl(ip \<mapsto> \<lparr>count = 1, windowStart = now\<rparr>))
      | Some rec \<Rightarrow>
          if now - windowStart rec > RATE_LIMIT_WINDOW_MS
          then (Allowed (RATE_LIMIT_MAX - 1), tbl(ip \<mapsto> \<lparr>count = 1, windowStart = now\<rparr>))
          else
            let rec' = rec\<lparr>count := count rec + 1\<rparr> in
            if count rec' > RATE_LIMIT_MAX
            then (Denied (of_int (windowStart rec' + RATE_LIMIT_WINDOW_MS - now) / 1000),
                  tbl(ip \<mapsto> rec'))
            else (Allowed (RATE_LIMIT_MAX - count rec'), tbl(ip \<mapsto> rec')))"

text \<open>Successive requests of one identity, at the given times, oldest first.\<close>

fun rateLimit_run :: "limiter \<Rightarrow> string \<Rightarrow> int list \<Rightarrow> rl_result list \<times> limiter" where
  "rateLimit_run tbl ip [] = ([], tbl)"
| "rateLimit_run tbl ip (t # ts) =
     (case rateLimit t tbl ip of
        (r, tbl') \<Rightarrow> (case rateLimit_run tbl' ip ts of (rs, tbl'') \<Rightarrow> (r # rs, tbl'')))"

section \<open>File system and paths\<close>

text \<open>
  A path is the list of its segments below the root. \<open>path.join\<close> joins its arguments
  with the separator and normalises the result: empty and \<open>.\<close> segments disappear and
  \<open>..\<close> removes the segment before it (at the root it is dropped). The first argument is
  always the process's working directory, an absolute normalised path.
\<close>

type_synonym path = "string list"

fun normalize_segments :: "string list \<Rightarrow> string list \<Rightarrow> path" where
  "normalize_segments acc [] = rev acc"
| "normalize_segments acc (s # ss) =
     (if s = [] \<or> s = ''.'' then normalize_segments acc ss
      else if s = ''..'' then normalize_segments (tl acc) ss
      else normalize_segments (s # acc) ss)"

definition path_join :: "path \<Rightarrow> string list \<Rightarrow> path" where
  "path_join base parts = normalize_segments (rev base) (concat (map (split_on CHR ''/'') parts))"

text \<open>\<open>file + ".tmp"\<close> on the path string: the suffix extends the last segment.\<close>

definition path_suffix :: "path \<Rightarrow> string \<Rightarrow> path" where
  "path_suffix p sfx = (case rev p of [] \<Rightarrow> [sfx] | l # r \<Rightarrow> rev r @ [l @ sfx])"

text \<open>
  The file system maps a path to a file with its contents or to a directory. Every
  operation is recorded in a trace. Reading fails on a missing path and on a directory;
  writing fails on a directory and when the parent is no directory; other causes of
  failure (permissions, devices) are not represented.
\<close>

datatype fs_node = File string | Dir

datatype fs_op =
    OpExists path | OpMkdir path | OpRead path | OpWrite path | OpRename path path

record fs_state =
  nodes :: "path \<Rightarrow> fs_node option"
  trace :: "fs_op list"

definition is_dir :: "fs_state \<Rightarrow> path \<Rightarrow> bool" where
  "is_dir fs p = (p = [] \<or> nodes fs p = Some Dir)"

definition existsSync :: "fs_state \<Rightarrow> path \<Rightarrow> bool \<times> fs_state" where
  "existsSync fs p = (p = [] \<or> nodes fs p \<noteq> None, fs\<lparr>trace := trace fs @ [OpExists p]\<rparr>)"

definition readFile :: "fs_state \<Rightarrow> path \<Rightarrow> (js_error + string) \<times> fs_state" where
  "readFile fs p =
     (case (if p = [] then Some Dir else nodes fs p) of
        Some (File contents) \<Rightarrow> Inr contents
      | Some Dir \<Rightarrow> Inl (SystemError ''EISDIR'')
      | None \<Rightarrow> Inl (SystemError ''ENOENT''),
      fs\<lparr>trace := trace fs @ [OpRead p]\<rparr>)"

definition writeFile :: "fs_state \<Rightarrow> path \<Rightarrow> string \<Rightarrow> (js_error + unit) \<times> fs_state" where
  "writeFile fs p data =
     (if is_dir fs p then (Inl (SystemError ''EISDIR''), fs\<lparr>trace := trace fs @ [OpWrite p]\<rparr>)
      else if \<not> is_dir fs (butlast p)
        then (Inl (SystemError ''ENOENT''), fs\<lparr>trace := trace fs @ [OpWrite p]\<rparr>)
      else (Inr (), fs\<lparr>nodes := (nodes fs)(p \<mapsto> File data), trace := trace fs @ [OpWrite p]\<rparr>))"

definition rename :: "fs_state \<Rightarrow> path \<Rightarrow> path \<Rightarrow> (js_error + unit) \<times> fs_state" where
  "rename fs old new =
     (case nodes fs old of
        None \<Rightarrow> (Inl (SystemError ''ENOENT''), fs\<lparr>trace := trace fs @ [OpRename old new]\<rparr>)
      | Some n \<Rightarrow>
          if is_dir fs new \<or> \<not> is_dir fs (butlast new)
          then (Inl (SystemError ''EISDIR''), fs\<lparr>trace := trace fs @ [OpRename old new]\<rparr>)
          else (Inr (), fs\<lparr>nodes := (nodes fs)(old := None, new \<mapsto> n),
                           trace := trace fs @ [OpRename old new]\<rparr>))"

text \<open>
  \<open>fs.mkdirSync(p, {recursive: true})\<close>: creates every missing directory on the way and
  fails when a segment of the way is a file.
\<close>

fun mkdir_segments ::
  "(path \<Rightarrow> fs_node option) \<Rightarrow> path \<Rightarrow> string list \<Rightarrow> js_error + (path \<Rightarrow> fs_node option)" where
  "mkdir_segments m pre [] = Inr m"
| "mkdir_segments m pre (s # ss) =
     (case m (pre @ [s]) of
        Some (File contents) \<Rightarrow> Inl (SystemError ''ENOTDIR'')
      | Some Dir \<Rightarrow> mkdir_segments m (pre @ [s]) ss
      | None \<Rightarrow> mkdir_segments (m(pre @ [s] \<mapsto> Dir)) (pre @ [s]) ss)"

definition mkdirSync :: "fs_state \<Rightarrow> path \<Rightarrow> (js_error + unit) \<times> fs_state" where
  "mkdirSync fs p =
     (case mkdir_segments (nodes fs) [] p of
        Inl e \<Rightarrow> (Inl e, fs\<lparr>trace := trace fs @ [OpMkdir p]\<rparr>)
      | Inr m \<Rightarrow> (Inr (), fs\<lparr>nodes := m, trace := trace fs @ [OpMkdir p]\<rparr>))"

text \<open>The operations that a call appended to the trace.\<close>

definition new_ops :: "fs_state \<Rightarrow> fs_state \<Rightarrow> fs_op list" where
  "new_ops fs fs' = drop (length (trace fs)) (trace fs')"

text \<open>A call kept the trace it found and appended only operations of the set \<open>S\<close>.\<close>

definition extends_by :: "fs_op set \<Rightarrow> fs_state \<Rightarrow> fs_state \<Rightarrow> bool" where
  "extends_by S fs fs' =
     (take (length (trace fs)) (trace fs') = trace fs \<and> set (new_ops fs fs') \<subseteq> S)"

section \<open>lib/storage.js\<close>

definition AUDITS_DIR :: "path \<Rightarrow> path" where
  "AUDITS_DIR cwd = path_join cwd [''data'', ''audits'']"

definition ensureDir :: "path \<Rightarrow> fs_state \<Rightarrow> (js_error + unit) \<times> fs_state" where
  "ensureDir cwd fs =
     (let (present, fs1) = existsSync fs (AUDITS_DIR cwd)
      in if \<not> present then mkdirSync fs1 (AUDITS_DIR cwd) else (Inr (), fs1))"

text \<open>The character class \<open>[a-zA-Z0-9\-_.]\<close> and the replacement of every other character.\<close>

definition safe_char :: "char \<Rightarrow> bool" where
  "safe_char c =
     (let n = (of_char c :: nat) in
      (97 \<le> n \<and> n \<le> 122) \<or> (65 \<le> n \<and> n \<le> 90) \<or> (48 \<le> n \<and> n \<le> 57)
      \<or> c = CHR ''-'' \<or> c = CHR ''_'' \<or> c = CHR ''.'')"

definition safeName :: "string \<Rightarrow> string" where
  "safeName siteId = map (\<lambda>c. if safe_char c then c else CHR ''_'') siteId"

definition audit_file :: "path \<Rightarrow> string \<Rightarrow> path" where
  "audit_file cwd siteId = path_join (AUDITS_DIR cwd) [safeName siteId @ ''.json'']"

text \<open>
  \<open>getAudit\<close> returns \<open>null\<close> for an empty \<open>siteId\<close> and for a missing file, rejects when
  the directory cannot be made, the file cannot be read or its text is no JSON (the
  parser's message, which the source appends to the error, is left out), and otherwise
  resolves to the parsed value.
\<close>

definition getAudit ::
  "builtins \<Rightarrow> path \<Rightarrow> fs_state \<Rightarrow> string \<Rightarrow> (js_error + json) \<times> fs_state" where
  "getAudit b cwd fs siteId =
     (if siteId = [] then (Inr JNull, fs)
      else
        let (made, fs1) = ensureDir cwd fs in
        case made of
          Inl e \<Rightarrow> (Inl e, fs1)
        | Inr u \<Rightarrow>
            let file = audit_file cwd siteId;
                (present, fs2) = existsSync fs1 file
            in if \<not> present then (Inr JNull, fs2)
               else
                 let (raw, fs3) = readFile fs2 file in
                 case raw of
                   Inl e \<Rightarrow> (Inl e, fs3)
                 | Inr text \<Rightarrow>
                     (case json_parse b text of
                        None \<Rightarrow> (Inl (JsError ''Audit JSON parse error''), fs3)
                      | Some v \<Rightarrow> (Inr v, fs3)))"

text \<open>\<open>saveAudit\<close> resolves to \<open>true\<close>, or rejects with the error of the step that failed.\<close>

definition saveAudit ::
  "builtins \<Rightarrow> path \<Rightarrow> fs_state \<Rightarrow> string \<Rightarrow> json \<Rightarrow> (js_error + bool) \<times> fs_state" where
  "saveAudit b cwd fs siteId jsonObj =
     (let (made, fs1) = ensureDir cwd fs in
      case made of
        Inl e \<Rightarrow> (Inl e, fs1)
      | Inr u \<Rightarrow>
          let file = audit_file cwd siteId;
              tmp = path_suffix file ''.tmp'';
              data = json_stringify b jsonObj;
              (written, fs2) = writeFile fs1 tmp data
          in case written of
               Inl e \<Rightarrow> (Inl e, fs2)
             | Inr u \<Rightarrow>
                 let (renamed, fs3) = rename fs2 tmp file in
                 case renamed of
                   Inl e \<Rightarrow> (Inl e, fs3)
                 | Inr u \<Rightarrow> (Inr True, fs3))"

section \<open>lib/fetcher.js\<close>

text \<open>
  The platform's \<open>fetch\<close> either rejects (a network-level failure, or the abort that the
  timeout signal raises) or resolves to a response, whatever its status code. The
  response carries its header list with lower-case names, and the outcome of reading its
  body with \<open>res.text()\<close>. \<open>res.ok\<close> is true for the status codes 200 to 299.
\<close>

record response =
  res_status :: int
  res_headers :: "(string \<times> string) list"
  res_url :: string
  res_body :: "js_error + string"

datatype fetch_outcome = Rejected js_error | Resolved response

definition response_ok :: "response \<Rightarrow> bool" where
  "response_ok res = (200 \<le> res_status res \<and> res_status res \<le> 299)"

record fetch_result =
  ok :: bool
  status :: int
  headers :: "(string \<times> string) list"
  final_url :: string
  result_text :: "string option"
  elapsed :: int

text \<open>
  \<open>fetchWithTimeout\<close> applied to the outcome of \<open>fetch\<close> and to the time that passed
  until it settled. The field \<open>text\<close> of the source is \<open>result_text\<close>, and \<open>None\<close> is
  \<open>null\<close>. A rejection of \<open>fetch\<close> passes through the \<open>finally\<close> block to the caller;
  a failure of \<open>res.text()\<close> is swallowed. The timer that arms the abort signal, and
  its clearing in the \<open>finally\<close> block, decide that outcome and are not represented.
\<close>

definition text_like :: "string \<Rightarrow> bool" where
  "text_like ct =
     (js_includes ct ''text'' \<or> js_includes ct ''json'' \<or> js_includes ct ''html''
      \<or> js_includes ct ''xml'')"

text \<open>\<open>res.headers.get('content-type') || ''\<close>.\<close>

definition content_type :: "response \<Rightarrow> string" where
  "content_type res =
     (case map_of (res_headers res) ''content-type'' of None \<Rightarrow> [] | Some v \<Rightarrow> v)"

definition fetchWithTimeout :: "fetch_outcome \<Rightarrow> int \<Rightarrow> js_error + fetch_result" where
  "fetchWithTimeout outcome elapsed_ms =
     (case outcome of
        Rejected e \<Rightarrow> Inl e
      | Resolved res \<Rightarrow>
          let ct = content_type res;
              text = (if text_like ct
                      then (case res_body res of Inl e \<Rightarrow> None | Inr t \<Rightarrow> Some t)
                      else None)
          in Inr \<lparr>ok = response_ok res, status = res_status res, headers = res_headers res,
                  final_url = res_url res, result_text = text, elapsed = elapsed_ms\<rparr>)"

section \<open>lib/perf.js\<close>

record finding =
  title :: string
  action :: string

text \<open>
  What \<open>callPSI\<close> resolves to: \<open>{error}\<close>, or the metrics read from the service's
  answer. \<open>perfScore\<close> is \<open>Math.round(score * 100)\<close>, or \<open>null\<close> (\<open>None\<close>) when the answer
  has no performance category.
\<close>

record psi_data =
  perfScore :: "int option"
  lcp :: json
  inp :: json
  cls :: json
  raw :: json

datatype psi_result = PsiError string | PsiData psi_data

record perf_result =
  mobile :: "psi_result option"
  desktop :: "psi_result option"
  serverFetchMs :: "int option"
  perf_findings :: "finding list"

text \<open>
  \<open>callPSI\<close>. The fetcher is a function of the requested URL. Reading the metrics out of
  the parsed answer (lines 24 to 35 of the source, with \<open>Math.round\<close> on a floating-point
  product) is the parameter \<open>metrics\<close>, which can throw on an answer that is \<open>null\<close>.
\<close>

definition callPSI ::
  "builtins \<Rightarrow> (json \<Rightarrow> js_error + psi_data) \<Rightarrow> (string \<Rightarrow> js_error + fetch_result)
   \<Rightarrow> string \<Rightarrow> string \<Rightarrow> string \<Rightarrow> js_error + psi_result" where
  "callPSI b metrics fetcher targetUrl strategy key =
     (let base = ''https://www.googleapis.com/pagespeedonline/v5/runPagespeed'';
          u = base @ ''?url='' @ encodeURIComponent b targetUrl @ ''&strategy='' @ strategy
              @ (if key \<noteq> [] then ''&key='' @ encodeURIComponent b key else [])
      in case fetcher u of
           Inl e \<Rightarrow> Inl e
         | Inr res \<Rightarrow>
             if status res \<ge> 400
             then Inr (PsiError (''PSI request failed (status=''
                                  @ number_to_string b (of_int (status res)) @ '')''))
             else
               let text = (case result_text res of None \<Rightarrow> [] | Some t \<Rightarrow> t) in
               (case json_parse b text of
                  None \<Rightarrow> Inr (PsiError ''Invalid PSI JSON response'')
                | Some v \<Rightarrow>
                    (case metrics v of Inl e \<Rightarrow> Inl e | Inr d \<Rightarrow> Inr (PsiData d))))"

text \<open>\<open>x.perfScore\<close> of a result of \<open>callPSI\<close>; \<open>None\<close> is \<open>undefined\<close> or \<open>null\<close>.\<close>

fun psi_perfScore :: "psi_result \<Rightarrow> int option" where
  "psi_perfScore (PsiError msg) = None"
| "psi_perfScore (PsiData d) = perfScore d"

text \<open>
  \<open>analyzePerformance\<close> rejects when one of its three requests rejects (of the two
  concurrent calls of \<open>callPSI\<close>, the mobile one is looked at first here).
\<close>

definition analyzePerformance ::
  "builtins \<Rightarrow> (json \<Rightarrow> js_error + psi_data) \<Rightarrow> (string \<Rightarrow> js_error + fetch_result)
   \<Rightarrow> string \<Rightarrow> string \<Rightarrow> js_error + perf_result" where
  "analyzePerformance b metrics fetcher targetUrl psiKey =
     (case fetcher targetUrl of
        Inl e \<Rightarrow> Inl e
      | Inr t \<Rightarrow>
          (case callPSI b metrics fetcher targetUrl ''mobile'' psiKey of
             Inl e \<Rightarrow> Inl e
           | Inr m \<Rightarrow>
               (case callPSI b metrics fetcher targetUrl ''desktop'' psiKey of
                  Inl e \<Rightarrow> Inl e
                | Inr d \<Rightarrow>
                    let ms = elapsed t;
                        f1 = (if ms \<noteq> 0 \<and> ms > 1000
                              then [\<lparr>title = ''Slow server response time'',
                                      action = ''Initial fetch took ''
                                        @ number_to_string b (of_int ms)
                                        @ '' ms. Consider server tuning or CDN.''\<rparr>]
                              else []);
                        f2 = (case psi_perfScore m of
                                None \<Rightarrow> []
                              | Some sc \<Rightarrow>
                                  if sc < 60
                                  then [\<lparr>title = ''Low mobile performance score'',
                                          action = ''Mobile performance score is ''
                                            @ number_to_string b (of_int sc)
                                            @ ''. Optimize LCP, INP, and CLS.''\<rparr>]
                                  else []);
                        f3 = (case psi_perfScore d of
                                None \<Rightarrow> []
                              | Some sc \<Rightarrow>
                                  if sc < 70
                                  then [\<lparr>title = ''Low desktop performance score'',
                                          action = ''Desktop performance score is ''
                                            @ number_to_string b (of_int sc)
                                            @ ''. Investigate render-blocking resources.''\<rparr>]
                                  else [])
                    in Inr \<lparr>mobile = Some m, desktop = Some d, serverFetchMs = Some ms,
                            perf_findings = f1 @ f2 @ f3\<rparr>)))"

section \<open>The handler of pages/api/run-audit.js\<close>

text \<open>What the other analyzers and the summarizer hand back to the handler.\<close>

record seo_info =
  scoreEstimate :: int
  seo_findings :: "finding list"
  seo_details :: json

record seo_result =
  seo :: seo_info
  seo_headers :: "(string \<times> string) list"
  html :: string

record security_result =
  sec_findings :: "finding list"
  sec_headers :: "(string \<times> string) list"

record ai_summary =
  summary :: string
  recommendations :: "string list"

record raw_findings =
  raw_url :: string
  requestedAt :: string
  raw_seo :: seo_info
  raw_performance :: perf_result
  raw_security :: security_result

text \<open>The object \<open>auditData\<close>.\<close>

record audit_meta =
  meta_url :: string
  generatedAt :: string

record seo_section =
  seo_score :: int
  seo_section_findings :: "finding list"

record performance_section =
  performance_score :: int
  performance_findings :: "finding list"
  performance_mobile :: "psi_result option"
  performance_desktop :: "psi_result option"
  performance_serverFetchMs :: "int option"

record security_section =
  security_score :: int
  security_findings :: "finding list"
  security_headers :: "(string \<times> string) list"

record auditData =
  meta :: audit_meta
  seo_part :: seo_section
  performance :: performance_section
  security :: security_section
  aiSummary :: ai_summary
  raw_part :: raw_findings

text \<open>
  Everything outside the handler that a request depends on: the built-ins, the working
  directory, the clock readings, the identifier that \<open>crypto.randomUUID\<close> returns, the
  answers of the resolver and of the network, the environment variable
  \<open>PSI_API_KEY\<close>, the analyzers of lib/seo.js and lib/security.js and the summarizer
  (each gives its result or the error it throws), and the JSON value under which
  \<open>JSON.stringify\<close> sees \<open>auditData\<close>.
\<close>

record world =
  js :: builtins
  process_cwd :: path
  date_now :: int
  requested_time :: string
  generated_time :: string
  randomUUID :: string
  dns_lookup :: "string \<Rightarrow> dns_answer"
  network :: "string \<Rightarrow> fetch_outcome \<times> int"
  psi_metrics :: "json \<Rightarrow> js_error + psi_data"
  PSI_API_KEY :: string
  analyzeSEO :: "string \<Rightarrow> js_error + seo_result"
  analyzeSecurity ::
    "string \<Rightarrow> (string \<times> string) list \<Rightarrow> string \<Rightarrow> js_error + security_result"
  summarize :: "raw_findings \<Rightarrow> js_error + ai_summary"
  audit_value :: "auditData \<Rightarrow> json"

definition fetcher :: "world \<Rightarrow> string \<Rightarrow> js_error + fetch_result" where
  "fetcher w u = fetchWithTimeout (fst (network w u)) (snd (network w u))"

text \<open>
  The request: its method, the header \<open>x-forwarded-for\<close> and the socket's address when
  present, and \<open>req.body\<close> (\<open>None\<close> is \<open>undefined\<close>).
\<close>

record request =
  req_method :: string
  x_forwarded_for :: "string option"
  remoteAddress :: "string option"
  body :: "json option"

datatype reply_body = ErrorBody string | AuditBody string auditData

record reply =
  reply_status :: nat
  reply_headers :: "(string \<times> string) list"
  reply_body :: reply_body

datatype log_entry = Warn string | LogError string

record server_state =
  limiter :: limiter
  files :: fs_state
  console :: "log_entry list"

definition getClientIp :: "request \<Rightarrow> string option" where
  "getClientIp req =
     (case x_forwarded_for req of
        None \<Rightarrow> remoteAddress req
      | Some xff \<Rightarrow>
          if xff = [] then remoteAddress req
          else (case map trim (split_on CHR '','' xff) of
                  [] \<Rightarrow> None
                | first # others \<Rightarrow> Some first))"

text \<open>\<open>getClientIp(req) || "unknown"\<close>.\<close>

definition client_identity :: "request \<Rightarrow> string" where
  "client_identity req =
     (case getClientIp req of
        None \<Rightarrow> ''unknown''
      | Some a \<Rightarrow> if a = [] then ''unknown'' else a)"

definition validateUrlText :: "builtins \<Rightarrow> string \<Rightarrow> string option" where
  "validateUrlText b u =
     (if u = [] then Some ''Missing url''
      else if length u > 2000 then Some ''URL too long''
      else (case new_URL b u of
              None \<Rightarrow> Some ''Invalid URL''
            | Some parsed \<Rightarrow>
                if protocol parsed \<notin> set [''http:'', ''https:'']
                then Some ''URL must be http or https''
                else None))"

text \<open>
  \<open>typeof req.body === "object" ? req.body : JSON.parse(req.body)\<close>; \<open>None\<close> when
  \<open>JSON.parse\<close> throws.
\<close>

definition parse_body :: "builtins \<Rightarrow> json option \<Rightarrow> json option" where
  "parse_body b raw_body =
     (case raw_body of
        None \<Rightarrow> None
      | Some JNull \<Rightarrow> Some JNull
      | Some (JArr xs) \<Rightarrow> Some (JArr xs)
      | Some (JObj kvs) \<Rightarrow> Some (JObj kvs)
      | Some v \<Rightarrow> (case js_String b v of Inl e \<Rightarrow> None | Inr t \<Rightarrow> json_parse b t))"

text \<open>
  \<open>(body.url || "").trim()\<close>: a type error, which nothing catches, when the body is
  \<open>null\<close> or \<open>url\<close> is truthy and no string.
\<close>

definition body_url :: "builtins \<Rightarrow> json \<Rightarrow> js_error + string" where
  "body_url b v =
     (if v = JNull then Inl (TypeError ''Cannot read properties of null'')
      else (case truthy_value (js_get b v ''url'') of
              None \<Rightarrow> Inr (trim [])
            | Some (JStr u) \<Rightarrow> Inr (trim u)
            | Some other \<Rightarrow> Inl (TypeError ''trim is not a function'')))"

text \<open>\<open>Math.round\<close> on an exact value: the nearest integer, a tie going up.\<close>

definition Math_round :: "rat \<Rightarrow> int" where
  "Math_round x = \<lfloor>x + 1 / 2\<rfloor>"

text \<open>\<open>x?.perfScore\<close> when it is truthy, that is a number other than zero.\<close>

definition truthy_perfScore :: "psi_result option \<Rightarrow> int option" where
  "truthy_perfScore x =
     (case x of
        None \<Rightarrow> None
      | Some r \<Rightarrow> (case psi_perfScore r of
                     None \<Rightarrow> None
                   | Some n \<Rightarrow> if n = 0 then None else Some n))"

definition performance_score_of :: "perf_result \<Rightarrow> int" where
  "performance_score_of perfResult =
     (let desktop_or_0 = (case truthy_perfScore (desktop perfResult) of
                            None \<Rightarrow> 0 | Some d \<Rightarrow> d)
      in case truthy_perfScore (mobile perfResult) of
           Some m \<Rightarrow> Math_round (of_int (m + desktop_or_0) / 2)
         | None \<Rightarrow> desktop_or_0)"

text \<open>Lines 108 to 141: the analyzers, each inside its own \<open>try\<close>, and the messages logged.\<close>

record analysis =
  seoResult :: seo_result
  perfResult :: perf_result
  securityResult :: security_result
  summaryResult :: ai_summary
  rawFindings :: raw_findings
  logged :: "log_entry list"

definition run_analyzers :: "world \<Rightarrow> string \<Rightarrow> analysis" where
  "run_analyzers w u =
     (let (seoR, log1) =
            (case analyzeSEO w u of
               Inr r \<Rightarrow> (r, [])
             | Inl e \<Rightarrow>
                 (\<lparr>seo = \<lparr>scoreEstimate = 0, seo_findings = [], seo_details = JObj []\<rparr>,
                   seo_headers = [], html = []\<rparr>,
                  [LogError ''[SEO Error]'']));
          (perfR, log2) =
            (case analyzePerformance (js w) (psi_metrics w) (fetcher w) u (PSI_API_KEY w) of
               Inr r \<Rightarrow> (r, [])
             | Inl e \<Rightarrow>
                 (\<lparr>mobile = None, desktop = None, serverFetchMs = Some 0, perf_findings = []\<rparr>,
                  [LogError ''[Performance Error]'']));
          (secR, log3) =
            (case analyzeSecurity w u (seo_headers seoR) (html seoR) of
               Inr r \<Rightarrow> (r, [])
             | Inl e \<Rightarrow>
                 (\<lparr>sec_findings = [], sec_headers = []\<rparr>, [LogError ''[Security Error]'']));
          rawF = \<lparr>raw_url = u, requestedAt = requested_time w, raw_seo = seo seoR,
                  raw_performance = perfR, raw_security = secR\<rparr>;
          (ai, log4) =
            (case summarize w rawF of
               Inr r \<Rightarrow> (r, [])
             | Inl e \<Rightarrow>
                 (\<lparr>summary = ''No AI summary produced'', recommendations = []\<rparr>,
                  [LogError ''[AI Summary Error]'']))
      in \<lparr>seoResult = seoR, perfResult = perfR, securityResult = secR, summaryResult = ai,
           rawFindings = rawF, logged = log1 @ log2 @ log3 @ log4\<rparr>)"

text \<open>Lines 143 to 169: the assembly of \<open>auditData\<close>.\<close>

definition build_auditData :: "world \<Rightarrow> string \<Rightarrow> analysis \<Rightarrow> auditData" where
  "build_auditData w u a =
     \<lparr>meta = \<lparr>meta_url = u, generatedAt = generated_time w\<rparr>,
      seo_part = \<lparr>seo_score = scoreEstimate (seo (seoResult a)),
                  seo_section_findings = seo_findings (seo (seoResult a))\<rparr>,
      performance =
        \<lparr>performance_score = performance_score_of (perfResult a),
         performance_findings = perf_findings (perfResult a),
         performance_mobile = mobile (perfResult a),
         performance_desktop = desktop (perfResult a),
         performance_serverFetchMs = serverFetchMs (perfResult a)\<rparr>,
      security =
        \<lparr>security_score = max 0 (100 - int (length (sec_findings (securityResult a))) * 8),
         security_findings = sec_findings (securityResult a),
         security_headers = sec_headers (securityResult a)\<rparr>,
      aiSummary = summaryResult a,
      raw_part = rawFindings a\<rparr>"

text \<open>
  \<open>existingAudits[auditId] = auditData\<close>: an object gets or replaces the property, an
  array keeps its elements (the property is no element and \<open>JSON.stringify\<close> does not
  see it), and the assignment throws on \<open>null\<close> and, in the strict mode of a module, on
  a primitive value.
\<close>

fun update_entry :: "string \<Rightarrow> json \<Rightarrow> (string \<times> json) list \<Rightarrow> (string \<times> json) list" where
  "update_entry k v [] = [(k, v)]"
| "update_entry k v ((k', v') # kvs) =
     (if k' = k then (k, v) # kvs else (k', v') # update_entry k v kvs)"

fun assign_property :: "json \<Rightarrow> string \<Rightarrow> json \<Rightarrow> js_error + json" where
  "assign_property (JObj kvs) k v = Inr (JObj (update_entry k v kvs))"
| "assign_property (JArr xs) k v = Inr (JArr xs)"
| "assign_property other k v = Inl (TypeError ''Cannot set property'')"

text \<open>
  Lines 171 to 184: \<open>data/audits.json\<close> is read when it exists (a failed read or parse
  gives the empty object), the new audit is put under a fresh identifier and the whole
  document is written back with \<open>fs.writeFileSync\<close>.
\<close>

definition persist_audit ::
  "world \<Rightarrow> fs_state \<Rightarrow> auditData \<Rightarrow> (js_error + string) \<times> fs_state" where
  "persist_audit w fs a =
     (let auditsFile = path_join (process_cwd w) [''data'', ''audits.json''];
          (present, fs1) = existsSync fs auditsFile;
          (existingAudits, fs2) =
            (if present
             then
               let (raw, fs') = readFile fs1 auditsFile in
               (case raw of
                  Inl e \<Rightarrow> (JObj [], fs')
                | Inr text \<Rightarrow>
                    (case json_parse (js w) text of
                       None \<Rightarrow> (JObj [], fs')
                     | Some v \<Rightarrow> (v, fs')))
             else (JObj [], fs1));
          auditId = randomUUID w
      in case assign_property existingAudits auditId (audit_value w a) of
           Inl e \<Rightarrow> (Inl e, fs2)
         | Inr updated \<Rightarrow>
             let (written, fs3) = writeFile fs2 auditsFile (json_stringify (js w) updated) in
             (case written of
                Inl e \<Rightarrow> (Inl e, fs3)
              | Inr u \<Rightarrow> (Inr auditId, fs3)))"

text \<open>Lines 108 to 187, for a URL that passed the checks before them.\<close>

definition audit_and_reply ::
  "world \<Rightarrow> string \<Rightarrow> server_state \<Rightarrow> (js_error + reply) \<times> server_state" where
  "audit_and_reply w u st =
     (let a = run_analyzers w u;
          data = build_auditData w u a;
          st1 = st\<lparr>console := console st @ logged a\<rparr>;
          (saved, fs') = persist_audit w (files st1) data;
          st2 = st1\<lparr>files := fs'\<rparr>
      in case saved of
           Inl e \<Rightarrow> (Inl e, st2)
         | Inr auditId \<Rightarrow>
             (Inr \<lparr>reply_status = 200, reply_headers = [], reply_body = AuditBody auditId data\<rparr>,
              st2))"

text \<open>
  Lines 100 to 106. The call is inside a \<open>try\<close> whose \<open>catch\<close> logs a warning;
  \<open>isPrivateAddress\<close> has its own \<open>catch\<close> and never throws, so only \<open>new URL\<close> could
  reach it.
\<close>

definition ssrf_check ::
  "world \<Rightarrow> string \<Rightarrow> server_state \<Rightarrow> (js_error + reply) \<times> server_state" where
  "ssrf_check w u st =
     (case new_URL (js w) u of
        None \<Rightarrow>
          audit_and_reply w u (st\<lparr>console := console st @ [Warn ''[SSRF Check Warning]'']\<rparr>)
      | Some parsed \<Rightarrow>
          if isPrivateAddress (dns_lookup w (hostname parsed))
          then (Inr \<lparr>reply_status = 400, reply_headers = [],
                     reply_body = ErrorBody ''URL resolves to a private or disallowed IP''\<rparr>, st)
          else audit_and_reply w u st)"

definition handler ::
  "world \<Rightarrow> request \<Rightarrow> server_state \<Rightarrow> (js_error + reply) \<times> server_state" where
  "handler w req st =
     (if req_method req \<noteq> ''POST''
      then (Inr \<lparr>reply_status = 405, reply_headers = [(''Allow'', ''POST'')],
                 reply_body = ErrorBody ''Method not allowed''\<rparr>, st)
      else
        let ip = client_identity req;
            (rl, tbl) = rateLimit (date_now w) (limiter st) ip;
            st1 = st\<lparr>limiter := tbl\<rparr>
        in case rl of
             Denied after \<Rightarrow>
               (Inr \<lparr>reply_status = 429,
                     reply_headers =
                       [(''Retry-After'',
                         number_to_string (js w)
                           (of_int \<lceil>if after = 0 then 60 else after\<rceil>))],
                     reply_body = ErrorBody ''Rate limit exceeded''\<rparr>, st1)
           | Allowed left \<Rightarrow>
               (case parse_body (js w) (body req) of
                  None \<Rightarrow>
                    (Inr \<lparr>reply_status = 400, reply_headers = [],
                          reply_body = ErrorBody ''Invalid JSON body''\<rparr>, st1)
                | Some parsed \<Rightarrow>
                    (case body_url (js w) parsed of
                       Inl e \<Rightarrow> (Inl e, st1)
                     | Inr u \<Rightarrow>
                         (case validateUrlText (js w) u of
                            Some vErr \<Rightarrow>
                              (Inr \<lparr>reply_status = 400, reply_headers = [],
                                    reply_body = ErrorBody vErr\<rparr>, st1)
                          | None \<Rightarrow> ssrf_check w u st1))))"

text \<open>
  A request passes every check that precedes the analysis with the URL \<open>u\<close>: the method,
  the rate limit, the body, the URL text, and the address check.
\<close>

definition admitted :: "world \<Rightarrow> request \<Rightarrow> server_state \<Rightarrow> string \<Rightarrow> bool" where
  "admitted w req st u =
     (req_method req = ''POST''
      \<and> (case fst (rateLimit (date_now w) (limiter st) (client_identity req)) of
            Allowed left \<Rightarrow> True
          | Denied after \<Rightarrow> False)
      \<and> (case parse_body (js w) (body req) of
            None \<Rightarrow> False
          | Some parsed \<Rightarrow> body_url (js w) parsed = Inr u)
      \<and> validateUrlText (js w) u = None
      \<and> (case new_URL (js w) u of
            None \<Rightarrow> True
          | Some parsed \<Rightarrow> \<not> isPrivateAddress (dns_lookup w (hostname parsed))))"

section \<open>findAuditByIdOrSite of pages/api/chat-analyst.js\<close>


text \<open>
  The tests that the loop body makes on one record \<open>v\<close>, in the order of the source.
  \<open>meta\<close> is \<open>v?.meta || {}\<close>. \<open>String(meta.siteId)\<close> and \<open>String(meta.url)\<close> can throw;
  the \<open>catch\<close> of the loop body then passes over the record. The hostname and substring
  tests are inside the inner \<open>try\<close>, after \<open>new URL(meta.url)\<close>, so they are skipped
  when the URL does not parse; \<open>includes\<close> exists on strings and arrays and is a type
  error, caught by the inner \<open>catch\<close>, on any other value.
\<close>

definition record_meta :: "builtins \<Rightarrow> json \<Rightarrow> json" where
  "record_meta b v =
     (case truthy_value (if v = JNull then None else js_get b v ''meta'') of
        Some m \<Rightarrow> m
      | None \<Rightarrow> JObj [])"

definition siteId_equals :: "builtins \<Rightarrow> string \<Rightarrow> json \<Rightarrow> js_error + bool" where
  "siteId_equals b ident v =
     (case truthy_value (js_get b (record_meta b v) ''siteId'') of
        Some s \<Rightarrow> (case js_String b s of Inl e \<Rightarrow> Inl e | Inr t \<Rightarrow> Inr (t = ident))
      | None \<Rightarrow> Inr False)"

definition url_equals :: "builtins \<Rightarrow> string \<Rightarrow> json \<Rightarrow> js_error + bool" where
  "url_equals b ident v =
     (case truthy_value (js_get b (record_meta b v) ''url'') of
        Some u \<Rightarrow> (case js_String b u of Inl e \<Rightarrow> Inl e | Inr t \<Rightarrow> Inr (t = ident))
      | None \<Rightarrow> Inr False)"

text \<open>\<open>new URL(meta.url)\<close> for a truthy \<open>meta.url\<close>; \<open>None\<close> when it throws.\<close>

definition record_url :: "builtins \<Rightarrow> json \<Rightarrow> (json \<times> url) option" where
  "record_url b v =
     (case truthy_value (js_get b (record_meta b v) ''url'') of
        Some u \<Rightarrow>
          (case js_String b u of
             Inl e \<Rightarrow> None
           | Inr t \<Rightarrow> (case new_URL b t of None \<Rightarrow> None | Some parsed \<Rightarrow> Some (u, parsed)))
      | None \<Rightarrow> None)"

definition hostname_equals :: "builtins \<Rightarrow> string \<Rightarrow> json \<Rightarrow> bool" where
  "hostname_equals b ident v =
     (case record_url b v of None \<Rightarrow> False | Some (u, parsed) \<Rightarrow> hostname parsed = ident)"

fun value_includes :: "json \<Rightarrow> string \<Rightarrow> bool" where
  "value_includes (JStr s) ident = js_includes s ident"
| "value_includes (JArr xs) ident = (JStr ident \<in> set xs)"
| "value_includes v ident = False"

definition url_contains :: "builtins \<Rightarrow> string \<Rightarrow> json \<Rightarrow> bool" where
  "url_contains b ident v =
     (case record_url b v of None \<Rightarrow> False | Some (u, parsed) \<Rightarrow> value_includes u ident)"

definition record_matches :: "builtins \<Rightarrow> string \<Rightarrow> json \<Rightarrow> bool" where
  "record_matches b ident v =
     (case siteId_equals b ident v of
        Inl e \<Rightarrow> False
      | Inr hit \<Rightarrow>
          if hit then True
          else
            (case url_equals b ident v of
               Inl e \<Rightarrow> False
             | Inr hit' \<Rightarrow>
                 if hit' then True
                 else if hostname_equals b ident v then True
                 else if url_contains b ident v then True
                 else False))"

text \<open>The loop over \<open>Object.entries(audits)\<close>: the first record that passes a test is returned.\<close>

fun scan_records :: "builtins \<Rightarrow> string \<Rightarrow> json list \<Rightarrow> json option" where
  "scan_records b ident [] = None"
| "scan_records b ident (v # rest) =
     (if record_matches b ident v then Some v else scan_records b ident rest)"





section \<open>answerQuery of lib/ai.js\<close>

text \<open>
  A search with a pattern of the shape \<open>/\b(alt1|alt2|...)\b/\<close>: some position of the
  text starts one of the alternatives, with a word boundary before and after it. A word
  character is a letter, a digit or the underscore; a boundary lies between a word
  character and a character that is none (or an end of the text).
\<close>

definition word_char :: "char \<Rightarrow> bool" where
  "word_char c =
     (let n = (of_char c :: nat) in
      (97 \<le> n \<and> n \<le> 122) \<or> (65 \<le> n \<and> n \<le> 90) \<or> (48 \<le> n \<and> n \<le> 57)
      \<or> c = CHR ''_'')"

definition word_boundary :: "char option \<Rightarrow> char option \<Rightarrow> bool" where
  "word_boundary l r =
     ((case l of None \<Rightarrow> False | Some c \<Rightarrow> word_char c)
      \<noteq> (case r of None \<Rightarrow> False | Some c \<Rightarrow> word_char c))"

definition alternative_at :: "char option \<Rightarrow> string \<Rightarrow> string \<Rightarrow> bool" where
  "alternative_at prev s alt =
     (case alt of
        [] \<Rightarrow> False
      | a # as \<Rightarrow>
          startsWith s alt
          \<and> word_boundary prev (Some a)
          \<and> word_boundary (Some (last alt))
                (case drop (length alt) s of [] \<Rightarrow> None | c # cs \<Rightarrow> Some c))"

fun search_from :: "string list \<Rightarrow> char option \<Rightarrow> string \<Rightarrow> bool" where
  "search_from alts prev [] = False"
| "search_from alts prev (c # cs) =
     (list_ex (alternative_at prev (c # cs)) alts \<or> search_from alts (Some c) cs)"

definition matches_words :: "string list \<Rightarrow> string \<Rightarrow> bool" where
  "matches_words alts text = search_from alts None text"

record citation =
  section_key :: string
  excerpt :: string

record query_answer =
  answer :: string
  citations :: "citation list"
  suggestedActions :: "string list"
  urgency :: string

text \<open>
  The evidence map \<open>relevant\<close> is an object: the list of its properties in the order of
  \<open>Object.keys\<close>. \<open>relevant[k]\<close> for one of its keys is the value stored under it, and
  \<open>Array.prototype.join\<close> turns \<open>null\<close> into the empty string. \<open>String(relevant[k])\<close> and
  \<open>join\<close> throw when the conversion of a value throws, and nothing in \<open>answerQuery\<close> or
  in the fallback catches that. The field \<open>section\<close> of a citation is \<open>section_key\<close> here.
\<close>

definition property_text ::
  "builtins \<Rightarrow> (string \<times> json) list \<Rightarrow> string \<Rightarrow> js_error + string" where
  "property_text b relevant k =
     (case map_of relevant k of None \<Rightarrow> Inr ''undefined'' | Some v \<Rightarrow> js_String b v)"

text \<open>\<open>{section: k, excerpt: String(relevant[k]).slice(0, n)}\<close>.\<close>

definition cite ::
  "builtins \<Rightarrow> (string \<times> json) list \<Rightarrow> nat \<Rightarrow> string \<Rightarrow> js_error + citation" where
  "cite b relevant n k =
     (case property_text b relevant k of
        Inl e \<Rightarrow> Inl e
      | Inr t \<Rightarrow> Inr \<lparr>section_key = k, excerpt = take n t\<rparr>)"

text \<open>\<open>Object.values(relevant).join(" ")\<close>.\<close>

definition joined_values :: "builtins \<Rightarrow> (string \<times> json) list \<Rightarrow> js_error + string" where
  "joined_values b relevant =
     (case collect (map (\<lambda>v. if v = JNull then Inr [] else js_String b v) (map snd relevant)) of
        Inl e \<Rightarrow> Inl e
      | Inr ts \<Rightarrow> Inr (join '' '' ts))"

definition fallbackAnswerFromSnippets ::
  "builtins \<Rightarrow> (string \<times> json) list \<Rightarrow> string \<Rightarrow> js_error + query_answer" where
  "fallbackAnswerFromSnippets b relevant query =
     (case collect (map (cite b relevant 300) (take 6 (map fst relevant))) of
        Inl e \<Rightarrow> Inl e
      | Inr cites \<Rightarrow>
          (case joined_values b relevant of
             Inl e \<Rightarrow> Inl e
           | Inr joined \<Rightarrow>
               let text = toLowerCase joined;
                   m1 = matches_words [''404'', ''not found'', ''broken''] text;
                   m2 = matches_words [''lcp'', ''largest contentful paint'', ''ttfb'',
                                       ''long ttfb'', ''time to first byte''] text;
                   m3 = matches_words [''content-security-policy'', ''csp'', ''hsts'',
                                       ''x-frame-options'', ''x-content-type-options''] text;
                   m4 = matches_words [''meta description'', ''missing meta'', ''title tag''] text;
                   s1 = (if m1 then [''Fix broken links and update or remove 404 resources.'']
                         else []);
                   u1 = (if m1 then ''Medium'' else ''Low'');
                   s2 = (if m2
                         then [''Improve LCP/TTFB: optimize images, enable caching, review server response times.'']
                         else []);
                   u2 = (if m2 then (if u1 = ''High'' then ''High'' else ''Medium'') else u1);
                   s3 = (if m3
                         then [''Add/strengthen security headers: CSP, HSTS, X-Frame-Options, X-Content-Type-Options.'']
                         else []);
                   u3 = (if m3 then ''Medium'' else u2);
                   s4 = (if m4
                         then [''Add concise titles and unique meta descriptions for primary pages.'']
                         else []);
                   suggestions = s1 @ s2 @ s3 @ s4;
                   suggestions' =
                     (if suggestions = []
                      then [''Review the evidence snippets and prioritize fixes across performance, SEO and security.'']
                      else suggestions)
               in Inr \<lparr>answer = ''AI unavailable '' @ [CHR 0xE2, CHR 0x80, CHR 0x94]
                            @ '' returning evidence-based summary from audit JSON. See citations for evidence.'',
                         citations = cites,
                         suggestedActions = take 4 suggestions',
                         urgency = u3\<rparr>))"

text \<open>
  A provider of the chain: its name, whether its credential is configured, and what its
  call does with the two prompts and the token limit: it throws, or it returns a
  response whose text is given (empty when the response has none).
\<close>

record provider =
  provider_name :: string
  enabled :: bool
  call :: "string \<Rightarrow> string \<Rightarrow> nat \<Rightarrow> js_error + string"

text \<open>
  The result of \<open>answerQuery\<close>: the deterministic fallback, or the object that lines 380
  to 403 of the source build from the non-empty text of a provider (by \<open>JSON.parse\<close> or
  by the line heuristics), which is kept here as that text with the citations computed
  beforehand.
\<close>

datatype query_result =
    FallbackAnswer query_answer
  | ProviderAnswer string string "citation list"

definition system_prompt :: string where
  "system_prompt =
     ''You are an analyst. Use only the provided JSON snippets as evidence; when you reference evidence, include an anchor like [KEY] where KEY is the JSON key. Output: (1) short answer, (2) 2-4 suggested next steps (bulleted), (3) urgency: Low/Medium/High. Keep answer concise.''"

definition user_prompt ::
  "builtins \<Rightarrow> (string \<times> json) list \<Rightarrow> string \<Rightarrow> js_error + string" where
  "user_prompt b relevantJson query =
     (case collect (map (property_text b relevantJson) (take 30 (map fst relevantJson))) of
        Inl e \<Rightarrow> Inl e
      | Inr ts \<Rightarrow>
          Inr (''USER QUERY: '' @ query @ [CHR 0x0A, CHR 0x0A] @ ''EVIDENCE SNIPPETS:''
               @ [CHR 0x0A]
               @ concat (map (\<lambda>(k, t). k @ '': '' @ take 1600 t @ [CHR 0x0A, CHR 0x0A])
                           (zip (take 30 (map fst relevantJson)) ts))))"

text \<open>
  A provider that does not answer: its credential is missing, its call throws, or the
  text of its response is blank.
\<close>

definition unavailable :: "provider \<Rightarrow> string \<Rightarrow> string \<Rightarrow> nat \<Rightarrow> bool" where
  "unavailable c sys usr limit =
     (\<not> enabled c \<or> (case call c sys usr limit of Inl e \<Rightarrow> True | Inr text \<Rightarrow> trim text = []))"

text \<open>The loop over the providers; a provider that is disabled, throws or answers with
  blank text is passed over.\<close>

fun try_providers ::
  "provider list \<Rightarrow> string \<Rightarrow> string \<Rightarrow> nat \<Rightarrow> (string \<times> string) option" where
  "try_providers [] sys usr limit = None"
| "try_providers (c # cs) sys usr limit =
     (if \<not> enabled c then try_providers cs sys usr limit
      else (case call c sys usr limit of
              Inl e \<Rightarrow> try_providers cs sys usr limit
            | Inr text \<Rightarrow>
                let rawText = trim text in
                if rawText = [] then try_providers cs sys usr limit
                else Some (provider_name c, rawText)))"

text \<open>
  \<open>answerQuery\<close>. In the source the providers are OpenAI, Gemini and Deepseek, in this
  order. \<open>options.limit || 500\<close> is the token limit.
\<close>

definition answerQuery ::
  "builtins \<Rightarrow> provider list \<Rightarrow> (string \<times> json) list \<Rightarrow> string \<Rightarrow> nat
   \<Rightarrow> js_error + query_result" where
  "answerQuery b callers relevantJson query limit =
     (if query = [] then Inl (JsError ''Invalid query'')
      else
        case collect (map (cite b relevantJson 400) (take 8 (map fst relevantJson))) of
          Inl e \<Rightarrow> Inl e
        | Inr cites \<Rightarrow>
            (case user_prompt b relevantJson query of
               Inl e \<Rightarrow> Inl e
             | Inr usr \<Rightarrow>
                 (case try_providers callers system_prompt usr
                         (if limit = 0 then 500 else limit) of
                    Some (name, rawText) \<Rightarrow> Inr (ProviderAnswer name rawText cites)
                  | None \<Rightarrow>
                      (case fallbackAnswerFromSnippets b relevantJson query of
                         Inl e \<Rightarrow> Inl e
                       | Inr a \<Rightarrow> Inr (FallbackAnswer a)))))"

text \<open>A value that \<open>String\<close> converts without throwing; every string is one.\<close>

definition convertible :: "builtins \<Rightarrow> json \<Rightarrow> bool" where
  "convertible b v = (case js_String b v of Inl e \<Rightarrow> False | Inr t \<Rightarrow> True)"

section \<open>A concrete environment\<close>

text \<open>
  Two stored records, the document that holds them and its text. \<open>JSON.parse\<close>,
  \<open>new URL\<close> and \<open>encodeURIComponent\<close> are given as tables on the texts that occur.
\<close>

definition record_a :: json where
  "record_a = JObj [(''meta'', JObj [(''url'', JStr ''https://foo.org/?ref=shop'')])]"

definition record_b :: json where
  "record_b =
     JObj [(''meta'', JObj [(''siteId'', JStr ''shop''), (''url'', JStr ''https://shop.example/'')])]"

definition audits_document :: json where
  "audits_document = JObj [(''a1'', record_a), (''b2'', record_b)]"

text \<open>A text between double quotes.\<close>

definition quoted :: "string \<Rightarrow> string" where
  "quoted t = [CHR 0x22] @ t @ [CHR 0x22]"

definition audits_text :: string where
  "audits_text =
     ''{'' @ quoted ''a1'' @ '':{'' @ quoted ''meta'' @ '':{'' @ quoted ''url'' @ '':''
     @ quoted ''https://foo.org/?ref=shop'' @ ''}},'' @ quoted ''b2'' @ '':{'' @ quoted ''meta''
     @ '':{'' @ quoted ''siteId'' @ '':'' @ quoted ''shop'' @ '','' @ quoted ''url'' @ '':''
     @ quoted ''https://shop.example/'' @ ''}}}''"

text \<open>An answer of the speed service with a performance score of 0.8, and its text.\<close>

definition psi_document :: json where
  "psi_document =
     JObj [(''lighthouseResult'',
            JObj [(''categories'', JObj [(''performance'', JObj [(''score'', JNum (4 / 5))])])])]"

definition psi_text :: string where
  "psi_text =
     ''{'' @ quoted ''lighthouseResult'' @ '':{'' @ quoted ''categories'' @ '':{''
     @ quoted ''performance'' @ '':{'' @ quoted ''score'' @ '':0.8}}}}''"

text \<open>The decimal text of an integer.\<close>

fun decimal :: "nat \<Rightarrow> string" where
  "decimal n =
     (if n < 10 then [char_of (48 + n)] else decimal (n div 10) @ [char_of (48 + n mod 10)])"

definition integer_text :: "rat \<Rightarrow> string" where
  "integer_text q =
     (let (n, d) = quotient_of q in
      if d \<noteq> 1 then ''NaN''
      else if n < 0 then CHR ''-'' # decimal (nat (- n)) else decimal (nat n))"

text \<open>
  The compact JSON text of a value whose strings need no escape and whose numbers are
  integers or the score above.
\<close>

fun compact_json :: "json \<Rightarrow> string" where
  "compact_json JNull = ''null''"
| "compact_json (JBool v) = (if v then ''true'' else ''false'')"
| "compact_json (JNum n) = (if n = 4 / 5 then ''0.8'' else integer_text n)"
| "compact_json (JStr t) = quoted t"
| "compact_json (JArr xs) = ''['' @ join '','' (map compact_json xs) @ '']''"
| "compact_json (JObj kvs) =
     ''{'' @ join '','' (map (\<lambda>(k, v). quoted k @ '':'' @ compact_json v) kvs) @ ''}''"
| "compact_json (JFun f) = ''null''"

definition example_builtins :: builtins where
  "example_builtins =
     \<lparr>json_parse = (\<lambda>t. if t = ''{}'' then Some (JObj [])
                         else if t = audits_text then Some audits_document
                         else if t = psi_text then Some psi_document
                         else if t = compact_json record_b then Some record_b
                         else None),
      json_stringify = compact_json,
      number_to_string = integer_text,
      new_URL = (\<lambda>t. if t = ''https://foo.org/?ref=shop''
                        then Some \<lparr>protocol = ''https:'', hostname = ''foo.org''\<rparr>
                      else if t = ''https://shop.example/''
                        then Some \<lparr>protocol = ''https:'', hostname = ''shop.example''\<rparr>
                      else if t = ''https://nxdomain.invalid/''
                        then Some \<lparr>protocol = ''https:'', hostname = ''nxdomain.invalid''\<rparr>
                      else None),
      encodeURIComponent = (\<lambda>t. if t = ''https://shop.example/''
                                   then ''https%3A%2F%2Fshop.example%2F'' else t),
      inherited = (\<lambda>v k. None)\<rparr>"

text \<open>
  A file system with the directory \<open>/srv/app/data\<close> and the document in
  \<open>/srv/app/data/audits.json\<close>, and one with the directory only.
\<close>

definition example_cwd :: path where
  "example_cwd = [''srv'', ''app'']"

definition empty_files :: fs_state where
  "empty_files =
     \<lparr>nodes = [[''srv''] \<mapsto> Dir, [''srv'', ''app''] \<mapsto> Dir, [''srv'', ''app'', ''data''] \<mapsto> Dir],
      trace = []\<rparr>"


text \<open>
  A world in which \<open>shop.example\<close> resolves to the public address 93.184.216.34 and no
  other name resolves, the page answers after 120 ms and no other host can be reached,
  the speed service answers the mobile request with a score of 80 and the desktop
  request with status 500, and the module lib/ai.js exports no \<open>summarize\<close>, so that
  calling it throws.
\<close>

definition psi_mobile_url :: string where
  "psi_mobile_url =
     ''https://www.googleapis.com/pagespeedonline/v5/runPagespeed?url=https%3A%2F%2Fshop.example%2F&strategy=mobile''"

definition psi_desktop_url :: string where
  "psi_desktop_url =
     ''https://www.googleapis.com/pagespeedonline/v5/runPagespeed?url=https%3A%2F%2Fshop.example%2F&strategy=desktop''"

definition example_network :: "string \<Rightarrow> fetch_outcome \<times> int" where
  "example_network u =
     (if u = ''https://shop.example/''
      then (Resolved \<lparr>res_status = 200, res_headers = [(''content-type'', ''text/html'')],
                      res_url = u, res_body = Inr ''<html></html>''\<rparr>, 120)
      else if u = psi_mobile_url
      then (Resolved \<lparr>res_status = 200, res_headers = [(''content-type'', ''application/json'')],
                      res_url = u, res_body = Inr psi_text\<rparr>, 900)
      else if u = psi_desktop_url
      then (Resolved \<lparr>res_status = 500, res_headers = [(''content-type'', ''text/plain'')],
                      res_url = u, res_body = Inr ''Internal error''\<rparr>, 900)
      else (Rejected (SystemError ''ENOTFOUND''), 5))"

definition example_world :: world where
  "example_world =
     \<lparr>js = example_builtins,
      process_cwd = example_cwd,
      date_now = 1000,
      requested_time = ''2025-01-01T00:00:00.000Z'',
      generated_time = ''2025-01-01T00:00:02.000Z'',
      randomUUID = ''1b4e28ba-2fa1-41d2-883f-0016d3cca427'',
      dns_lookup = (\<lambda>h. if h = ''shop.example'' then Some [Some (IPv4 0x5DB8D822)] else None),
      network = example_network,
      psi_metrics = (\<lambda>v. Inr \<lparr>perfScore = (if v = psi_document then Some 80 else None),
                                lcp = JNull, inp = JNull, cls = JNull, raw = v\<rparr>),
      PSI_API_KEY = [],
      analyzeSEO =
        (\<lambda>u. if u = ''https://shop.example/''
             then Inr \<lparr>seo = \<lparr>scoreEstimate = 80,
                               seo_findings = [\<lparr>title = ''Missing canonical link'',
                                                action = ''Add a canonical link.''\<rparr>],
                               seo_details = JObj []\<rparr>,
                       seo_headers = [(''content-type'', ''text/html'')],
                       html = ''<html></html>''\<rparr>
             else Inl (SystemError ''ENOTFOUND'')),
      analyzeSecurity = (\<lambda>u hs h. Inr \<lparr>sec_findings = [\<lparr>title = ''Missing HSTS'',
                                                            action = ''Add the header.''\<rparr>],
                                         sec_headers = []\<rparr>),
      summarize = (\<lambda>r. Inl (TypeError ''summarize is not a function'')),
      audit_value = (\<lambda>a. JObj [(''meta'', JObj [(''url'', JStr (meta_url (meta a)))])])\<rparr>"

definition example_request :: "string \<Rightarrow> request" where
  "example_request u =
     \<lparr>req_method = ''POST'', x_forwarded_for = Some ''203.0.113.7, 10.0.0.1'',
      remoteAddress = Some ''10.0.0.1'', body = Some (JObj [(''url'', JStr u)])\<rparr>"

definition example_state :: server_state where
  "example_state = \<lparr>limiter = Map.empty, files = empty_files, console = []\<rparr>"

text \<open>The same world when the speed service cannot be reached.\<close>

definition failing_world :: world where
  "failing_world =
     example_world
       \<lparr>network := (\<lambda>u. if u = ''https://shop.example/'' then example_network u
                        else (Rejected (SystemError ''ECONNRESET''), 5))\<rparr>"

section \<open>The texts of the concrete environment\<close>

lemma audits_text_is_document: "compact_json audits_document = audits_text"
  by code_simp

lemma psi_text_is_document: "compact_json psi_document = psi_text"
  by code_simp

section \<open>Properties of the rate limiter\<close>

lemma rateLimit_fresh:
  "tbl ip = None \<Longrightarrow>
   rateLimit now tbl ip =
     (Allowed (RATE_LIMIT_MAX - 1), tbl(ip \<mapsto> \<lparr>count = 1, windowStart = now\<rparr>))"
  by (simp add: rateLimit_def)

lemma rateLimit_elapsed:
  "tbl ip = Some r \<Longrightarrow> now - windowStart r > RATE_LIMIT_WINDOW_MS \<Longrightarrow>
   rateLimit now tbl ip =
     (Allowed (RATE_LIMIT_MAX - 1), tbl(ip \<mapsto> \<lparr>count = 1, windowStart = now\<rparr>))"
  by (simp add: rateLimit_def)

lemma rateLimit_inside:
  "tbl ip = Some r \<Longrightarrow> now - windowStart r \<le> RATE_LIMIT_WINDOW_MS \<Longrightarrow>
   rateLimit now tbl ip =
     (if count r + 1 > RATE_LIMIT_MAX
      then Denied (of_int (windowStart r + RATE_LIMIT_WINDOW_MS - now) / 1000)
      else Allowed (RATE_LIMIT_MAX - (count r + 1)),
      tbl(ip \<mapsto> r\<lparr>count := count r + 1\<rparr>))"
  by (simp add: rateLimit_def Let_def)

lemma rateLimit_other_identity:
  "other \<noteq> ip \<Longrightarrow> snd (rateLimit now tbl other) ip = tbl ip"
  by (simp add: rateLimit_def Let_def split: option.splits)

lemma rateLimit_run_length: "length (fst (rateLimit_run tbl ip ts)) = length ts"
  by (induction ts arbitrary: tbl) (simp_all add: split_beta)

text \<open>
  Inside a window that was opened at \<open>t0\<close> and has seen \<open>c\<close> requests, the \<open>k\<close>-th
  further request is admitted while \<open>c + k < 10\<close> and denied afterwards.
\<close>

lemma rateLimit_run_inside:
  "tbl ip = Some \<lparr>count = c, windowStart = t0\<rparr> \<Longrightarrow>
   \<forall>t \<in> set ts. t - t0 \<le> RATE_LIMIT_WINDOW_MS \<Longrightarrow>
   k < length ts \<Longrightarrow>
   fst (rateLimit_run tbl ip ts) ! k =
     (if c + int k + 1 > RATE_LIMIT_MAX
      then Denied (of_int (t0 + RATE_LIMIT_WINDOW_MS - ts ! k) / 1000)
      else Allowed (RATE_LIMIT_MAX - (c + int k + 1)))"
proof (induction ts arbitrary: tbl c k)
  case Nil
  then show ?case by simp
next
  case (Cons t ts)
  let ?r = "\<lparr>count = c, windowStart = t0\<rparr>"
  let ?tbl' = "tbl(ip \<mapsto> ?r\<lparr>count := c + 1\<rparr>)"
  from Cons.prems have inside: "t - windowStart ?r \<le> RATE_LIMIT_WINDOW_MS"
    by simp
  have step: "rateLimit t tbl ip =
     (if c + 1 > RATE_LIMIT_MAX
      then Denied (of_int (t0 + RATE_LIMIT_WINDOW_MS - t) / 1000)
      else Allowed (RATE_LIMIT_MAX - (c + 1)), ?tbl')"
    using rateLimit_inside [of tbl ip ?r t] Cons.prems(1) inside by simp
  show ?case
  proof (cases k)
    case 0
    then show ?thesis using step by (simp add: split_beta)
  next
    case (Suc j)
    have next_state: "?tbl' ip = Some \<lparr>count = c + 1, windowStart = t0\<rparr>"
      by simp
    have rest: "\<forall>t \<in> set ts. t - t0 \<le> RATE_LIMIT_WINDOW_MS"
      using Cons.prems(2) by simp
    have j: "j < length ts"
      using Cons.prems(3) Suc by simp
    have "fst (rateLimit_run ?tbl' ip ts) ! j =
       (if c + 1 + int j + 1 > RATE_LIMIT_MAX
        then Denied (of_int (t0 + RATE_LIMIT_WINDOW_MS - ts ! j) / 1000)
        else Allowed (RATE_LIMIT_MAX - (c + 1 + int j + 1)))"
      by (rule Cons.IH [of ?tbl' "c + 1" j, OF next_state rest j])
    then show ?thesis
      using step Suc by (simp add: split_beta algebra_simps)
  qed
qed


text \<open>
  C6 (as amended). For every client identity: a request that finds no window, or finds
  one whose start lies more than 60000 ms back, opens a window with count 1 and
  \<open>windowStart\<close> set to its own time, whatever the prior count was. Of the requests that
  follow while at most 60000 ms have passed since that start, the opening request and
  the next nine are admitted (with 9, 8, ..., 0 remaining) and every later one is denied
  with \<open>retryAfter\<close> equal to the time left until \<open>windowStart + 60000\<close>, in seconds.
\<close>

theorem rateLimit_fixed_window:
  assumes opens: "tbl ip = None \<or> (\<exists>r. tbl ip = Some r \<and> t0 - windowStart r > 60000)"
    and inside: "\<forall>t \<in> set ts. t - t0 \<le> 60000"
    and k: "k < length (t0 # ts)"
  shows "snd (rateLimit t0 tbl ip) ip = Some \<lparr>count = 1, windowStart = t0\<rparr>
    \<and> fst (rateLimit_run tbl ip (t0 # ts)) ! k =
        (if k < 10 then Allowed (9 - int k)
         else Denied (of_int (t0 + 60000 - (t0 # ts) ! k) / 1000))"
proof -
  let ?tbl' = "tbl(ip \<mapsto> \<lparr>count = 1, windowStart = t0\<rparr>)"
  have first: "rateLimit t0 tbl ip = (Allowed 9, ?tbl')"
  proof (cases "tbl ip")
    case None
    then show ?thesis using rateLimit_fresh [of tbl ip t0] by (simp add: RATE_LIMIT_MAX_def)
  next
    case (Some r)
    with opens have "t0 - windowStart r > RATE_LIMIT_WINDOW_MS"
      by (simp add: RATE_LIMIT_WINDOW_MS_def)
    then show ?thesis
      using rateLimit_elapsed [of tbl ip r t0] Some by (simp add: RATE_LIMIT_MAX_def)
  qed
  have reset: "snd (rateLimit t0 tbl ip) ip = Some \<lparr>count = 1, windowStart = t0\<rparr>"
    using first by simp
  have run: "fst (rateLimit_run tbl ip (t0 # ts)) = Allowed 9 # fst (rateLimit_run ?tbl' ip ts)"
    using first by (simp add: split_beta)
  have nth: "fst (rateLimit_run tbl ip (t0 # ts)) ! k =
        (if k < 10 then Allowed (9 - int k)
         else Denied (of_int (t0 + 60000 - (t0 # ts) ! k) / 1000))"
  proof (cases k)
    case 0
    then show ?thesis using run by simp
  next
    case (Suc j)
    have st: "?tbl' ip = Some \<lparr>count = 1, windowStart = t0\<rparr>"
      by simp
    have ins: "\<forall>t \<in> set ts. t - t0 \<le> RATE_LIMIT_WINDOW_MS"
      using inside by (simp add: RATE_LIMIT_WINDOW_MS_def)
    have j: "j < length ts"
      using k Suc by simp
    have "fst (rateLimit_run ?tbl' ip ts) ! j =
       (if 1 + int j + 1 > RATE_LIMIT_MAX
        then Denied (of_int (t0 + RATE_LIMIT_WINDOW_MS - ts ! j) / 1000)
        else Allowed (RATE_LIMIT_MAX - (1 + int j + 1)))"
      by (rule rateLimit_run_inside [of ?tbl' ip 1 t0 ts j, OF st ins j])
    then show ?thesis
      using run Suc by (auto simp: RATE_LIMIT_MAX_def RATE_LIMIT_WINDOW_MS_def)
  qed
  from reset nth show ?thesis by simp
qed

theorem rateLimit_fixed_window_witness:
  "snd (rateLimit 0 Map.empty ''203.0.113.7'') ''203.0.113.7''
     = Some \<lparr>count = 1, windowStart = 0\<rparr>
   \<and> fst (rateLimit_run Map.empty ''203.0.113.7''
         [0, 1000, 2000, 3000, 4000, 5000, 6000, 7000, 8000, 9000, 10000]) ! 10
     = Denied 50"
  using rateLimit_fixed_window
    [of Map.empty "''203.0.113.7''" 0
        "[1000, 2000, 3000, 4000, 5000, 6000, 7000, 8000, 9000, 10000]" 10]
  by simp

text \<open>
  The claim as stated fails at the instant the window duration has just elapsed: with
  \<open>windowStart = 0\<close> a request at time 60000 is still counted in the old window (the
  source compares with \<open>>\<close>), and with ten requests already counted it is denied with
  \<open>retryAfter = 0\<close> instead of opening a new window.
\<close>

theorem rateLimit_boundary_counterexample:
  "(60000::int) - 0 \<ge> RATE_LIMIT_WINDOW_MS
   \<and> snd (rateLimit 60000 [''203.0.113.7'' \<mapsto> \<lparr>count = 3, windowStart = 0\<rparr>] ''203.0.113.7'')
        ''203.0.113.7'' = Some \<lparr>count = 4, windowStart = 0\<rparr>
   \<and> fst (rateLimit 60000 [''203.0.113.7'' \<mapsto> \<lparr>count = 10, windowStart = 0\<rparr>] ''203.0.113.7'')
        = Denied 0"
  by (simp add: rateLimit_def RATE_LIMIT_WINDOW_MS_def RATE_LIMIT_MAX_def Let_def)

section \<open>Properties of the SSRF check\<close>

lemma isPrivateAddress_any:
  "a \<in> set addrs \<Longrightarrow> address_disallowed a \<Longrightarrow> isPrivateAddress (Some addrs)"
  by (auto simp: isPrivateAddress_def list_ex_iff)

lemma isPrivateAddress_none:
  "\<forall>a \<in> set addrs. \<not> address_disallowed a \<Longrightarrow> \<not> isPrivateAddress (Some addrs)"
  by (auto simp: isPrivateAddress_def list_ex_iff)

lemma mapped_address_passes:
  assumes "isIPv4MappedAddress w"
    and "range4 (toIPv4Address w) = LinkLocal \<or> range4 (toIPv4Address w) = CarrierGradeNat"
  shows "\<not> address_disallowed (Some (IPv6 w))"
  using assms by (auto simp: address_disallowed_def isIPv4MappedAddress_def)

lemma isPrivateAddress_lookup_failed: "isPrivateAddress None = False"
  by (simp add: isPrivateAddress_def)

text \<open>
  C1. A resolved address that is the IPv4-mapped IPv6 form of a link-local IPv4 address
  (here \<open>::ffff:169.254.169.254\<close>) or of a carrier-grade-NAT address (here
  \<open>::ffff:100.64.0.1\<close>) is not classified as disallowed, although the IPv4 address it
  unwraps to lies in a disallowed range and the plain IPv4 form of the same address is
  rejected: the unwrapped form is only compared with \<open>private\<close> and \<open>loopback\<close>.
\<close>

theorem isPrivateAddress_mapped_link_local:
  "isIPv4MappedAddress 0xFFFFA9FEA9FE
   \<and> addr_range (IPv4 (toIPv4Address 0xFFFFA9FEA9FE)) = LinkLocal
   \<and> isPrivateAddress (Some [Some (IPv6 0xFFFFA9FEA9FE)]) = False
   \<and> isPrivateAddress (Some [Some (IPv4 0xA9FEA9FE)]) = True
   \<and> addr_range (IPv4 (toIPv4Address 0xFFFF64400001)) = CarrierGradeNat
   \<and> isPrivateAddress (Some [Some (IPv6 0xFFFF64400001)]) = False
   \<and> isPrivateAddress (Some [Some (IPv4 0x64400001)]) = True"
  by (simp add: isPrivateAddress_def address_disallowed_def isIPv4MappedAddress_def
      toIPv4Address_def range4_def range6_def match4_def match6_def)

section \<open>Properties of the run-audit handler\<close>

text \<open>
  The handler's own \<open>catch\<close> around the address check is never entered: the URL has
  passed \<open>validateUrlText\<close>, so \<open>new URL\<close> cannot throw, and \<open>isPrivateAddress\<close> swallows
  every failure of the resolver. No run of the handler adds a warning to the console.
\<close>

lemma validateUrlText_parses:
  "validateUrlText b u = None \<Longrightarrow> \<exists>p. new_URL b u = Some p"
  by (auto simp: validateUrlText_def split: if_splits option.splits)

lemma logged_errors_only: "Warn t \<notin> set (logged (run_analyzers w u))"
  by (auto simp: run_analyzers_def split_beta Let_def split: sum.splits)

lemma audit_and_reply_console:
  "console (snd (audit_and_reply w u st)) = console st @ logged (run_analyzers w u)"
  by (simp add: audit_and_reply_def split_beta Let_def split: sum.splits)

lemma ssrf_check_console:
  assumes "validateUrlText (js w) u = None"
  shows "console (snd (ssrf_check w u st)) = console st
       \<or> console (snd (ssrf_check w u st)) = console st @ logged (run_analyzers w u)"
proof -
  from validateUrlText_parses [OF assms] obtain p where "new_URL (js w) u = Some p" ..
  then show ?thesis
    by (simp add: ssrf_check_def audit_and_reply_console)
qed

lemma handler_console:
  "console (snd (handler w req st)) = console st
   \<or> (\<exists>u. console (snd (handler w req st)) = console st @ logged (run_analyzers w u))"
proof -
  have "console (snd (handler w req st)) = console st
     \<or> (\<exists>u. validateUrlText (js w) u = None \<and>
            snd (handler w req st) =
              snd (ssrf_check w u (st\<lparr>limiter := snd (rateLimit (date_now w) (limiter st) (client_identity req))\<rparr>)))"
    by (auto simp: handler_def split_beta Let_def split: rl_result.splits option.splits sum.splits)
  then show ?thesis
  proof
    assume "console (snd (handler w req st)) = console st"
    then show ?thesis by simp
  next
    let ?st1 = "st\<lparr>limiter := snd (rateLimit (date_now w) (limiter st) (client_identity req))\<rparr>"
    assume "\<exists>u. validateUrlText (js w) u = None \<and>
            snd (handler w req st) = snd (ssrf_check w u ?st1)"
    then obtain u where v: "validateUrlText (js w) u = None"
      and h: "snd (handler w req st) = snd (ssrf_check w u ?st1)" by blast
    have "console ?st1 = console st" by simp
    with ssrf_check_console [OF v, of ?st1] h show ?thesis by auto
  qed
qed

lemma handler_never_warns:
  "Warn t \<in> set (console (snd (handler w req st))) \<Longrightarrow> Warn t \<in> set (console st)"
  using handler_console [of w req st] logged_errors_only by auto

text \<open>
  The handler raises only where the source has no \<open>try\<close>: in \<open>(body.url || "").trim()\<close>
  and in the persistence of the audit. No failure of an analyzer or of the summarizer
  makes it raise.
\<close>

lemma audit_and_reply_raises:
  "fst (audit_and_reply w u st) = Inl e \<Longrightarrow>
   fst (persist_audit w (files st) (build_auditData w u (run_analyzers w u))) = Inl e"
  by (simp add: audit_and_reply_def split_beta Let_def split: sum.splits)

lemma handler_raises_only:
  assumes "fst (handler w req st) = Inl e"
  shows "(\<exists>parsed. parse_body (js w) (body req) = Some parsed \<and> body_url (js w) parsed = Inl e)
       \<or> (\<exists>u. fst (persist_audit w (files st) (build_auditData w u (run_analyzers w u))) = Inl e)"
proof -
  let ?st1 = "st\<lparr>limiter := snd (rateLimit (date_now w) (limiter st) (client_identity req))\<rparr>"
  from assms have "(\<exists>parsed. parse_body (js w) (body req) = Some parsed \<and> body_url (js w) parsed = Inl e)
       \<or> (\<exists>u. fst (ssrf_check w u ?st1) = Inl e)"
    by (auto simp: handler_def split_beta Let_def
        split: if_splits rl_result.splits option.splits sum.splits)
  moreover have "fst (persist_audit w (files st) (build_auditData w u (run_analyzers w u))) = Inl e"
    if "fst (ssrf_check w u ?st1) = Inl e" for u
  proof -
    from that have "fst (audit_and_reply w u ?st1) = Inl e
        \<or> fst (audit_and_reply w u (?st1\<lparr>console := console ?st1 @ [Warn ''[SSRF Check Warning]'']\<rparr>)) = Inl e"
      by (auto simp: ssrf_check_def split: option.splits if_splits)
    then show ?thesis using audit_and_reply_raises by fastforce
  qed
  ultimately show ?thesis by blast
qed

text \<open>
  C2. When the resolver fails for the target's hostname, \<open>isPrivateAddress\<close> returns
  false, the request is not rejected and the audit is produced, but the handler logs no
  warning: in the world above, where \<open>nxdomain.invalid\<close> does not resolve, the reply has
  status 200 and the console holds only the errors of the analyzers and the summarizer
  that failed.
\<close>

theorem handler_dns_failure_logs_nothing:
  "new_URL (js example_world) ''https://nxdomain.invalid/''
     = Some \<lparr>protocol = ''https:'', hostname = ''nxdomain.invalid''\<rparr>
   \<and> dns_lookup example_world ''nxdomain.invalid'' = None
   \<and> isPrivateAddress (dns_lookup example_world ''nxdomain.invalid'') = False
   \<and> map_sum id reply_status
        (fst (handler example_world (example_request ''https://nxdomain.invalid/'') example_state))
      = Inr 200
   \<and> console (snd (handler example_world (example_request ''https://nxdomain.invalid/'')
                      example_state))
      = [LogError ''[SEO Error]'', LogError ''[Performance Error]'',
         LogError ''[AI Summary Error]'']"
  by code_simp

lemma handler_admitted:
  assumes "admitted w req st u"
  shows "handler w req st =
     audit_and_reply w u
       (st\<lparr>limiter := snd (rateLimit (date_now w) (limiter st) (client_identity req))\<rparr>)"
proof -
  from assms have m: "req_method req = ''POST''" by (simp add: admitted_def)
  from assms obtain left where rl:
    "fst (rateLimit (date_now w) (limiter st) (client_identity req)) = Allowed left"
    by (auto simp: admitted_def split: rl_result.splits)
  from assms obtain parsed where b: "parse_body (js w) (body req) = Some parsed"
    "body_url (js w) parsed = Inr u"
    by (auto simp: admitted_def split: option.splits)
  from assms have v: "validateUrlText (js w) u = None" by (simp add: admitted_def)
  then obtain pu where pu: "new_URL (js w) u = Some pu"
    by (auto simp: validateUrlText_def split: if_splits option.splits)
  with assms have safe: "\<not> isPrivateAddress (dns_lookup w (hostname pu))"
    by (simp add: admitted_def)
  have "ssrf_check w u
          (st\<lparr>limiter := snd (rateLimit (date_now w) (limiter st) (client_identity req))\<rparr>)
        = audit_and_reply w u
          (st\<lparr>limiter := snd (rateLimit (date_now w) (limiter st) (client_identity req))\<rparr>)"
    using pu safe by (simp add: ssrf_check_def)
  then show ?thesis
    using m rl b v by (simp add: handler_def split_beta Let_def)
qed

lemma run_analyzers_perf_throws:
  assumes "analyzePerformance (js w) (psi_metrics w) (fetcher w) u (PSI_API_KEY w) = Inl e"
  shows "perfResult (run_analyzers w u) =
           \<lparr>mobile = None, desktop = None, serverFetchMs = Some 0, perf_findings = []\<rparr>"
  using assms by (simp add: run_analyzers_def split_beta Let_def)

lemma run_analyzers_seo:
  "seoResult (run_analyzers w u) =
     (case analyzeSEO w u of
        Inr r \<Rightarrow> r
      | Inl e \<Rightarrow> \<lparr>seo = \<lparr>scoreEstimate = 0, seo_findings = [], seo_details = JObj []\<rparr>,
                   seo_headers = [], html = []\<rparr>)"
  by (simp add: run_analyzers_def split_beta Let_def split: sum.splits)

lemma run_analyzers_security:
  "securityResult (run_analyzers w u) =
     (case analyzeSecurity w u (seo_headers (seoResult (run_analyzers w u)))
             (html (seoResult (run_analyzers w u))) of
        Inr r \<Rightarrow> r
      | Inl e \<Rightarrow> \<lparr>sec_findings = [], sec_headers = []\<rparr>)"
  by (simp add: run_analyzers_def split_beta Let_def split: sum.splits)

lemma performance_score_default:
  "performance_score_of \<lparr>mobile = None, desktop = None, serverFetchMs = Some 0, perf_findings = []\<rparr> = 0"
  by (simp add: performance_score_of_def truthy_perfScore_def)

text \<open>
  C3. For a request that passes the checks before the analysis, if the performance
  analyzer throws or rejects and the write of \<open>data/audits.json\<close> succeeds, the handler
  does not raise: it replies with status 200 and an audit whose performance section has
  score 0 and no findings (and no mobile or desktop result), and whose SEO and security
  sections are computed from what the SEO and security analyzers returned (or from
  their own defaults when they threw as well).
\<close>

theorem handler_survives_performance_failure:
  assumes adm: "admitted w req st u"
    and throws: "analyzePerformance (js w) (psi_metrics w) (fetcher w) u (PSI_API_KEY w) = Inl e"
    and stored: "fst (persist_audit w (files st) (build_auditData w u (run_analyzers w u))) = Inr ident"
  shows "\<exists>d. fst (handler w req st)
               = Inr \<lparr>reply_status = 200, reply_headers = [], reply_body = AuditBody ident d\<rparr>
     \<and> performance d =
         \<lparr>performance_score = 0, performance_findings = [], performance_mobile = None,
          performance_desktop = None, performance_serverFetchMs = Some 0\<rparr>
     \<and> seo_part d =
         \<lparr>seo_score = scoreEstimate (seo (seoResult (run_analyzers w u))),
          seo_section_findings = seo_findings (seo (seoResult (run_analyzers w u)))\<rparr>
     \<and> seoResult (run_analyzers w u) =
         (case analyzeSEO w u of
            Inr r \<Rightarrow> r
          | Inl e \<Rightarrow> \<lparr>seo = \<lparr>scoreEstimate = 0, seo_findings = [], seo_details = JObj []\<rparr>,
                       seo_headers = [], html = []\<rparr>)
     \<and> security d =
         \<lparr>security_score = max 0 (100 - int (length (sec_findings (securityResult (run_analyzers w u)))) * 8),
          security_findings = sec_findings (securityResult (run_analyzers w u)),
          security_headers = sec_headers (securityResult (run_analyzers w u))\<rparr>
     \<and> securityResult (run_analyzers w u) =
         (case analyzeSecurity w u (seo_headers (seoResult (run_analyzers w u)))
                 (html (seoResult (run_analyzers w u))) of
            Inr r \<Rightarrow> r
          | Inl e \<Rightarrow> \<lparr>sec_findings = [], sec_headers = []\<rparr>)"
proof -
  let ?d = "build_auditData w u (run_analyzers w u)"
  let ?st1 = "st\<lparr>limiter := snd (rateLimit (date_now w) (limiter st) (client_identity req))\<rparr>"
  have "fst (audit_and_reply w u ?st1)
          = Inr \<lparr>reply_status = 200, reply_headers = [], reply_body = AuditBody ident ?d\<rparr>"
    using stored by (simp add: audit_and_reply_def split_beta Let_def)
  then have 1: "fst (handler w req st)
          = Inr \<lparr>reply_status = 200, reply_headers = [], reply_body = AuditBody ident ?d\<rparr>"
    using handler_admitted [OF adm] by simp
  have 2: "performance ?d =
         \<lparr>performance_score = 0, performance_findings = [], performance_mobile = None,
          performance_desktop = None, performance_serverFetchMs = Some 0\<rparr>"
    using run_analyzers_perf_throws [OF throws] performance_score_default
    by (simp add: build_auditData_def)
  have 3: "seo_part ?d =
         \<lparr>seo_score = scoreEstimate (seo (seoResult (run_analyzers w u))),
          seo_section_findings = seo_findings (seo (seoResult (run_analyzers w u)))\<rparr>"
    by (simp add: build_auditData_def)
  have 4: "security ?d =
         \<lparr>security_score = max 0 (100 - int (length (sec_findings (securityResult (run_analyzers w u)))) * 8),
          security_findings = sec_findings (securityResult (run_analyzers w u)),
          security_headers = sec_headers (securityResult (run_analyzers w u))\<rparr>"
    by (simp add: build_auditData_def)
  show ?thesis
    using 1 2 3 4 run_analyzers_seo [of w u] run_analyzers_security [of w u] by blast
qed

theorem handler_survives_performance_failure_witness:
  "\<exists>d. fst (handler failing_world (example_request ''https://shop.example/'') example_state)
         = Inr \<lparr>reply_status = 200, reply_headers = [],
                reply_body = AuditBody ''1b4e28ba-2fa1-41d2-883f-0016d3cca427'' d\<rparr>
       \<and> performance d =
           \<lparr>performance_score = 0, performance_findings = [], performance_mobile = None,
            performance_desktop = None, performance_serverFetchMs = Some 0\<rparr>"
proof -
  have 1: "admitted failing_world (example_request ''https://shop.example/'') example_state
             ''https://shop.example/''"
    by code_simp
  have 2: "analyzePerformance (js failing_world) (psi_metrics failing_world) (fetcher failing_world)
             ''https://shop.example/'' (PSI_API_KEY failing_world)
           = Inl (SystemError ''ECONNRESET'')"
    by code_simp
  have 3: "fst (persist_audit failing_world (files example_state)
             (build_auditData failing_world ''https://shop.example/''
                (run_analyzers failing_world ''https://shop.example/'')))
           = Inr ''1b4e28ba-2fa1-41d2-883f-0016d3cca427''"
    by code_simp
  from handler_survives_performance_failure [OF 1 2 3] show ?thesis by blast
qed

text \<open>
  The score of the performance section in the four cases of a truthy mobile and a
  truthy desktop score.
\<close>

lemma Math_round_half: "Math_round (of_int k / 2) = (k + 1) div 2"
proof -
  have e: "(of_int k / 2 + 1 / 2 :: rat) = of_int (k + 1) / of_int 2"
    by (simp add: add_divide_distrib)
  show ?thesis
    unfolding Math_round_def e by (rule floor_divide_of_int_eq)
qed

lemma Math_round_average: "Math_round ((of_int a + of_int b) / 2) = (a + b + 1) div 2"
  using Math_round_half [of "a + b"] by simp

lemma performance_score_of_cases:
  "performance_score_of p =
     (case (truthy_perfScore (mobile p), truthy_perfScore (desktop p)) of
        (Some m, Some d) \<Rightarrow> (m + d + 1) div 2
      | (Some m, None) \<Rightarrow> (m + 1) div 2
      | (None, Some d) \<Rightarrow> d
      | (None, None) \<Rightarrow> 0)"
  by (simp add: performance_score_of_def Math_round_half Math_round_average Let_def
      split: option.splits)

text \<open>
  C4. With a mobile score of 80 and a desktop call that failed (status 500, so no
  desktop score), the performance section's score is 40, the rounded half of the mobile
  score, not the single score that is present; in the mirrored case, a desktop score of
  80 and no mobile score, the score is 80.
\<close>

theorem performance_score_mobile_only:
  "truthy_perfScore (mobile (perfResult (run_analyzers example_world ''https://shop.example/'')))
     = Some 80
   \<and> desktop (perfResult (run_analyzers example_world ''https://shop.example/''))
     = Some (PsiError ''PSI request failed (status=500)'')
   \<and> performance_score
        (performance (build_auditData example_world ''https://shop.example/''
                        (run_analyzers example_world ''https://shop.example/'')))
     = 40
   \<and> performance_score_of
        \<lparr>mobile = None,
         desktop = Some (PsiData \<lparr>perfScore = Some 80, lcp = JNull, inp = JNull, cls = JNull,
                                   raw = JNull\<rparr>),
         serverFetchMs = Some 120, perf_findings = []\<rparr>
     = 80"
  by code_simp

section \<open>Properties of lib/storage.js\<close>

lemma safe_char_slash: "\<not> safe_char CHR ''/''"
  by (simp add: safe_char_def)

lemma safeName_no_separator: "CHR ''/'' \<notin> set (safeName s)"
  using safe_char_slash by (auto simp: safeName_def)

lemma safeName_length: "length (safeName s) = length s"
  by (simp add: safeName_def)

lemma split_on_absent: "d \<notin> set s \<Longrightarrow> split_on d s = [s]"
  by (induction s) auto

lemma path_join_child:
  assumes "CHR ''/'' \<notin> set name" "name \<noteq> []" "name \<noteq> ''.''" "name \<noteq> ''..''"
  shows "path_join base [name] = base @ [name]"
  using assms by (simp add: path_join_def split_on_absent)

lemma AUDITS_DIR_eq: "AUDITS_DIR cwd = cwd @ [''data'', ''audits'']"
  by (simp add: AUDITS_DIR_def path_join_def)

lemma audit_file_eq: "audit_file cwd siteId = AUDITS_DIR cwd @ [safeName siteId @ ''.json'']"
proof -
  let ?name = "safeName siteId @ ''.json''"
  have "CHR ''/'' \<notin> set ?name" using safeName_no_separator [of siteId] by simp
  moreover have "?name \<noteq> []" by simp
  moreover have "?name \<noteq> ''.''"
  proof
    assume "?name = ''.''"
    then have "length ?name = length ''.''" by (rule arg_cong)
    then show False by simp
  qed
  moreover have "?name \<noteq> ''..''"
  proof
    assume "?name = ''..''"
    then have "length ?name = length ''..''" by (rule arg_cong)
    then show False by simp
  qed
  ultimately show ?thesis
    unfolding audit_file_def by (rule path_join_child)
qed

lemma audit_file_parent: "butlast (audit_file cwd siteId) = AUDITS_DIR cwd"
  by (simp add: audit_file_eq)

lemma audit_tmp_eq:
  "path_suffix (audit_file cwd siteId) ''.tmp'' = AUDITS_DIR cwd @ [safeName siteId @ ''.json.tmp'']"
  by (simp add: audit_file_eq path_suffix_def)



lemma extends_by_refl: "extends_by S fs fs"
  by (simp add: extends_by_def new_ops_def)

lemma extends_by_append:
  "trace fs' = trace fs @ ops \<Longrightarrow> set ops \<subseteq> S \<Longrightarrow> extends_by S fs fs'"
  by (simp add: extends_by_def new_ops_def)

lemma extends_by_trans:
  assumes "extends_by S fs fs'" "extends_by S fs' fs''"
  shows "extends_by S fs fs''"
proof -
  from assms(1) have 1: "trace fs' = trace fs @ new_ops fs fs'" and s1: "set (new_ops fs fs') \<subseteq> S"
    unfolding extends_by_def new_ops_def by (metis append_take_drop_id, simp)
  from assms(2) have 2: "trace fs'' = trace fs' @ new_ops fs' fs''" and s2: "set (new_ops fs' fs'') \<subseteq> S"
    unfolding extends_by_def new_ops_def by (metis append_take_drop_id, simp)
  have "trace fs'' = trace fs @ (new_ops fs fs' @ new_ops fs' fs'')"
    using 1 2 by simp
  moreover have "set (new_ops fs fs' @ new_ops fs' fs'') \<subseteq> S"
    using s1 s2 by simp
  ultimately show ?thesis by (rule extends_by_append)
qed

lemma existsSync_extends: "OpExists p \<in> S \<Longrightarrow> extends_by S fs (snd (existsSync fs p))"
  by (rule extends_by_append [where ops = "[OpExists p]"]) (simp_all add: existsSync_def)

lemma readFile_extends: "OpRead p \<in> S \<Longrightarrow> extends_by S fs (snd (readFile fs p))"
  by (rule extends_by_append [where ops = "[OpRead p]"]) (simp_all add: readFile_def)

lemma writeFile_extends: "OpWrite p \<in> S \<Longrightarrow> extends_by S fs (snd (writeFile fs p d))"
  by (rule extends_by_append [where ops = "[OpWrite p]"]) (simp_all add: writeFile_def)

lemma rename_extends: "OpRename p q \<in> S \<Longrightarrow> extends_by S fs (snd (rename fs p q))"
  by (rule extends_by_append [where ops = "[OpRename p q]"])
     (simp_all add: rename_def split: option.splits)

lemma mkdirSync_extends: "OpMkdir p \<in> S \<Longrightarrow> extends_by S fs (snd (mkdirSync fs p))"
  by (rule extends_by_append [where ops = "[OpMkdir p]"])
     (simp_all add: mkdirSync_def split: sum.splits)

lemma ensureDir_extends:
  assumes "OpExists (AUDITS_DIR cwd) \<in> S" "OpMkdir (AUDITS_DIR cwd) \<in> S"
  shows "extends_by S fs (snd (ensureDir cwd fs))"
proof -
  let ?fs1 = "snd (existsSync fs (AUDITS_DIR cwd))"
  have 1: "extends_by S fs ?fs1" using assms(1) by (rule existsSync_extends)
  have 2: "extends_by S ?fs1 (snd (mkdirSync ?fs1 (AUDITS_DIR cwd)))"
    using assms(2) by (rule mkdirSync_extends)
  show ?thesis
    using 1 extends_by_trans [OF 1 2] by (simp add: ensureDir_def split_beta)
qed

lemma getAudit_extends:
  assumes S: "OpExists (AUDITS_DIR cwd) \<in> S" "OpMkdir (AUDITS_DIR cwd) \<in> S"
    "OpExists (audit_file cwd siteId) \<in> S" "OpRead (audit_file cwd siteId) \<in> S"
  shows "extends_by S fs (snd (getAudit b cwd fs siteId))"
proof -
  let ?fs1 = "snd (ensureDir cwd fs)"
  let ?fs2 = "snd (existsSync ?fs1 (audit_file cwd siteId))"
  let ?fs3 = "snd (readFile ?fs2 (audit_file cwd siteId))"
  have 1: "extends_by S fs ?fs1" using S(1,2) by (rule ensureDir_extends)
  have 2: "extends_by S fs ?fs2"
    using 1 existsSync_extends [OF S(3)] by (rule extends_by_trans)
  have 3: "extends_by S fs ?fs3"
    using 2 readFile_extends [OF S(4)] by (rule extends_by_trans)
  have "snd (getAudit b cwd fs siteId) \<in> {fs, ?fs1, ?fs2, ?fs3}"
    by (simp add: getAudit_def split_beta Let_def split: sum.splits option.splits)
  then show ?thesis using 1 2 3 extends_by_refl [of S fs] by auto
qed

lemma saveAudit_extends:
  assumes S: "OpExists (AUDITS_DIR cwd) \<in> S" "OpMkdir (AUDITS_DIR cwd) \<in> S"
    "OpWrite (path_suffix (audit_file cwd siteId) ''.tmp'') \<in> S"
    "OpRename (path_suffix (audit_file cwd siteId) ''.tmp'') (audit_file cwd siteId) \<in> S"
  shows "extends_by S fs (snd (saveAudit b cwd fs siteId r))"
proof -
  let ?tmp = "path_suffix (audit_file cwd siteId) ''.tmp''"
  let ?fs1 = "snd (ensureDir cwd fs)"
  let ?fs2 = "snd (writeFile ?fs1 ?tmp (json_stringify b r))"
  let ?fs3 = "snd (rename ?fs2 ?tmp (audit_file cwd siteId))"
  have 1: "extends_by S fs ?fs1" using S(1,2) by (rule ensureDir_extends)
  have 2: "extends_by S fs ?fs2"
    using 1 writeFile_extends [OF S(3)] by (rule extends_by_trans)
  have 3: "extends_by S fs ?fs3"
    using 2 rename_extends [OF S(4)] by (rule extends_by_trans)
  have "snd (saveAudit b cwd fs siteId r) \<in> {?fs1, ?fs2, ?fs3}"
    by (simp add: saveAudit_def split_beta Let_def split: sum.splits option.splits)
  then show ?thesis using 1 2 3 by auto
qed


lemma audit_tmp_neq_file: "path_suffix (audit_file cwd siteId) ''.tmp'' \<noteq> audit_file cwd siteId"
  by (simp add: audit_file_eq path_suffix_def)

lemma audit_file_neq_dir: "audit_file cwd siteId \<noteq> AUDITS_DIR cwd"
  by (simp add: audit_file_eq)

lemma audit_tmp_neq_dir: "path_suffix (audit_file cwd siteId) ''.tmp'' \<noteq> AUDITS_DIR cwd"
  by (simp add: audit_file_eq path_suffix_def)

lemma audit_tmp_parent: "butlast (path_suffix (audit_file cwd siteId) ''.tmp'') = AUDITS_DIR cwd"
  by (simp add: audit_file_eq path_suffix_def butlast_append)

lemma AUDITS_DIR_not_root: "AUDITS_DIR cwd \<noteq> []"
  by (simp add: AUDITS_DIR_eq)

lemma writeFile_Inr:
  "writeFile fs p d = (Inr u, fs') \<Longrightarrow>
   is_dir fs (butlast p) \<and> nodes fs' = (nodes fs)(p \<mapsto> File d)"
  by (auto simp: writeFile_def split: if_splits)

lemma rename_Inr:
  "rename fs p q = (Inr u, fs') \<Longrightarrow>
   (\<exists>n. nodes fs p = Some n \<and> nodes fs' = (nodes fs)(p := None, q \<mapsto> n))"
  by (auto simp: rename_def split: if_splits option.splits)

lemma saveAudit_Inr:
  assumes "saveAudit b cwd fs siteId r = (Inr res, fs')"
  shows "res = True
    \<and> nodes fs' (audit_file cwd siteId) = Some (File (json_stringify b r))
    \<and> nodes fs' (path_suffix (audit_file cwd siteId) ''.tmp'') = None
    \<and> nodes fs' (AUDITS_DIR cwd) = Some Dir"
proof -
  let ?file = "audit_file cwd siteId"
  let ?tmp = "path_suffix ?file ''.tmp''"
  let ?data = "json_stringify b r"
  obtain made fs1 where e: "ensureDir cwd fs = (made, fs1)" by (cases "ensureDir cwd fs")
  obtain written fs2 where w: "writeFile fs1 ?tmp ?data = (written, fs2)"
    by (cases "writeFile fs1 ?tmp ?data")
  obtain renamed fs3 where rn: "rename fs2 ?tmp ?file = (renamed, fs3)"
    by (cases "rename fs2 ?tmp ?file")
  from assms e w rn have ok: "written = Inr ()" "renamed = Inr ()" "fs' = fs3" "res = True"
    by (auto simp: saveAudit_def Let_def split: sum.splits)
  from w ok(1) have w': "is_dir fs1 (AUDITS_DIR cwd)" "nodes fs2 = (nodes fs1)(?tmp \<mapsto> File ?data)"
    using writeFile_Inr [of fs1 ?tmp ?data "()" fs2] by (simp_all add: audit_tmp_parent)
  from rn ok(2) have "\<exists>n. nodes fs2 ?tmp = Some n \<and> nodes fs3 = (nodes fs2)(?tmp := None, ?file \<mapsto> n)"
    using rename_Inr [of fs2 ?tmp ?file "()" fs3] by simp
  with w'(2) have n3: "nodes fs3 = (nodes fs1)(?tmp := None, ?file \<mapsto> File ?data)"
    by auto
  from w'(1) have d: "nodes fs1 (AUDITS_DIR cwd) = Some Dir"
    by (simp add: is_dir_def AUDITS_DIR_not_root)
  show ?thesis
    using ok(3,4) n3 d audit_tmp_neq_file [of cwd siteId] audit_file_neq_dir [of cwd siteId]
      audit_tmp_neq_dir [of cwd siteId]
    by (simp del: fun_upd_apply add: fun_upd_same fun_upd_other) 
qed

lemma getAudit_present:
  assumes "siteId \<noteq> []"
    and "nodes fs (AUDITS_DIR cwd) = Some Dir"
    and "nodes fs (audit_file cwd siteId) = Some (File text)"
  shows "fst (getAudit b cwd fs siteId) =
     (case json_parse b text of None \<Rightarrow> Inl (JsError ''Audit JSON parse error'') | Some v \<Rightarrow> Inr v)"
  using assms
  by (simp add: getAudit_def ensureDir_def existsSync_def readFile_def split_beta Let_def
      audit_file_eq split: option.splits)

lemma trace_existsSync: "trace (snd (existsSync fs p)) = trace fs @ [OpExists p]"
  by (simp add: existsSync_def)

lemma trace_readFile: "trace (snd (readFile fs p)) = trace fs @ [OpRead p]"
  by (simp add: readFile_def)

lemma trace_writeFile: "trace (snd (writeFile fs p d)) = trace fs @ [OpWrite p]"
  by (simp add: writeFile_def)

lemma trace_rename: "trace (snd (rename fs p q)) = trace fs @ [OpRename p q]"
  by (simp add: rename_def split: option.splits)

lemma trace_mkdirSync: "trace (snd (mkdirSync fs p)) = trace fs @ [OpMkdir p]"
  by (simp add: mkdirSync_def split: sum.splits)

lemmas trace_simps = trace_existsSync trace_readFile trace_writeFile trace_rename trace_mkdirSync

lemma trace_ensureDir:
  "trace (snd (ensureDir cwd fs)) =
     trace fs @ OpExists (AUDITS_DIR cwd)
       # (if fst (existsSync fs (AUDITS_DIR cwd)) then [] else [OpMkdir (AUDITS_DIR cwd)])"
  by (simp add: ensureDir_def split_beta trace_simps)

text \<open>
  The persistence of the run-audit handler returns the identifier that
  \<open>crypto.randomUUID\<close> gave and writes \<open>data/audits.json\<close> in place: the existence test,
  the read of an existing document and one write, with no temporary file and no rename.
\<close>

lemma persist_audit_trace:
  assumes "fst (persist_audit w fs a) = Inr ident"
  shows "ident = randomUUID w
    \<and> new_ops fs (snd (persist_audit w fs a)) =
        OpExists (path_join (process_cwd w) [''data'', ''audits.json''])
        # (if fst (existsSync fs (path_join (process_cwd w) [''data'', ''audits.json'']))
           then [OpRead (path_join (process_cwd w) [''data'', ''audits.json''])] else [])
        @ [OpWrite (path_join (process_cwd w) [''data'', ''audits.json''])]"
  using assms
  by (auto simp: persist_audit_def new_ops_def split_beta Let_def trace_simps
      split: sum.splits option.splits if_splits)

lemma saveAudit_trace:
  assumes "fst (saveAudit b cwd fs siteId r) = Inr res"
  shows "new_ops fs (snd (saveAudit b cwd fs siteId r)) =
        OpExists (AUDITS_DIR cwd)
        # (if fst (existsSync fs (AUDITS_DIR cwd)) then [] else [OpMkdir (AUDITS_DIR cwd)])
        @ [OpWrite (path_suffix (audit_file cwd siteId) ''.tmp''),
           OpRename (path_suffix (audit_file cwd siteId) ''.tmp'') (audit_file cwd siteId)]"
  using assms
  by (auto simp: saveAudit_def new_ops_def split_beta Let_def trace_simps trace_ensureDir
      split: sum.splits option.splits if_splits)

text \<open>
  C7 (as amended). \<open>saveAudit\<close> of lib/storage.js generates no identifier: it stores
  the record under the \<open>siteId\<close> that the caller supplies and resolves to \<open>true\<close>. It
  writes the full serialised record to the temporary file \<open>{name}.json.tmp\<close> and then
  renames that file onto \<open>{name}.json\<close>; the target is never written directly, and
  afterwards it holds the complete serialisation and the temporary file is gone. For
  every non-empty \<open>siteId\<close> and every record \<open>r\<close> that \<open>JSON.parse\<close> recovers from its
  serialisation, a \<open>saveAudit\<close> that succeeds, followed by \<open>getAudit\<close> with the same
  \<open>siteId\<close>, returns \<open>r\<close>.
\<close>

theorem audit_store_save_then_get:
  assumes roundtrip: "json_parse b (json_stringify b r) = Some r"
    and nonempty: "siteId \<noteq> []"
    and saved: "fst (saveAudit b cwd fs siteId r) = Inr res"
  shows "res = True
    \<and> new_ops fs (snd (saveAudit b cwd fs siteId r)) =
        OpExists (AUDITS_DIR cwd)
        # (if fst (existsSync fs (AUDITS_DIR cwd)) then [] else [OpMkdir (AUDITS_DIR cwd)])
        @ [OpWrite (path_suffix (audit_file cwd siteId) ''.tmp''),
           OpRename (path_suffix (audit_file cwd siteId) ''.tmp'') (audit_file cwd siteId)]
    \<and> nodes (snd (saveAudit b cwd fs siteId r)) (audit_file cwd siteId)
        = Some (File (json_stringify b r))
    \<and> nodes (snd (saveAudit b cwd fs siteId r)) (path_suffix (audit_file cwd siteId) ''.tmp'')
        = None
    \<and> fst (getAudit b cwd (snd (saveAudit b cwd fs siteId r)) siteId) = Inr r"
proof -
  let ?fs' = "snd (saveAudit b cwd fs siteId r)"
  have eq: "saveAudit b cwd fs siteId r = (Inr res, ?fs')"
    using saved by (simp add: prod_eq_iff)
  note s = saveAudit_Inr [OF eq]
  have "fst (getAudit b cwd ?fs' siteId) = Inr r"
    using getAudit_present [of siteId ?fs' cwd "json_stringify b r" b] nonempty s roundtrip
    by simp
  then show ?thesis
    using s saveAudit_trace [OF saved] by simp
qed

theorem audit_store_save_then_get_witness:
  "fst (getAudit example_builtins example_cwd
          (snd (saveAudit example_builtins example_cwd empty_files ''shop.example'' record_b))
          ''shop.example'') = Inr record_b
   \<and> nodes (snd (saveAudit example_builtins example_cwd empty_files ''shop.example'' record_b))
        (path_suffix (audit_file example_cwd ''shop.example'') ''.tmp'') = None"
proof -
  have 1: "json_parse example_builtins (json_stringify example_builtins record_b) = Some record_b"
    by code_simp
  have 2: "''shop.example'' \<noteq> []" by simp
  have 3: "fst (saveAudit example_builtins example_cwd empty_files ''shop.example'' record_b)
             = Inr True"
    by code_simp
  from audit_store_save_then_get [OF 1 2 3] show ?thesis by blast
qed

text \<open>
  The claim as stated fails: \<open>saveAudit\<close> under the caller's name \<open>shop.example\<close>
  resolves to \<open>true\<close>, not to an identifier, the file it leaves is named after the
  caller's \<open>siteId\<close>, and a second save under the same \<open>siteId\<close> replaces the first
  record instead of getting an identifier of its own.
\<close>

theorem audit_store_counterexample:
  "fst (saveAudit example_builtins example_cwd empty_files ''shop.example'' (JObj [])) = Inr True
   \<and> nodes (snd (saveAudit example_builtins example_cwd empty_files ''shop.example'' (JObj [])))
        [''srv'', ''app'', ''data'', ''audits'', ''shop.example.json''] = Some (File ''{}'')
   \<and> fst (saveAudit example_builtins example_cwd
          (snd (saveAudit example_builtins example_cwd empty_files ''shop.example'' (JObj [])))
          ''shop.example'' record_b) = Inr True
   \<and> fst (getAudit example_builtins example_cwd
          (snd (saveAudit example_builtins example_cwd
             (snd (saveAudit example_builtins example_cwd empty_files ''shop.example'' (JObj [])))
             ''shop.example'' record_b))
          ''shop.example'') = Inr record_b"
  by code_simp

text \<open>
  C10 (as amended). For every string \<open>siteId\<close> the file of the audit is
  \<open>data/audits/{name}.json\<close> directly under the working directory's \<open>data/audits\<close>, where
  \<open>name\<close> is \<open>siteId\<close> with every character outside \<open>[a-zA-Z0-9-_.]\<close> replaced by an
  underscore, so that the name contains no separator. \<open>getAudit\<close> only tests and creates
  the directory and tests and reads that file. \<open>saveAudit\<close> only tests and creates the
  directory, writes the temporary sibling \<open>data/audits/{name}.json.tmp\<close> and renames it
  onto that file. Hence no \<open>siteId\<close> makes the store read or write a file outside the
  directory.
\<close>

theorem storage_paths_confined:
  "safeName siteId = map (\<lambda>c. if safe_char c then c else CHR ''_'') siteId
   \<and> CHR ''/'' \<notin> set (safeName siteId) \<and> CHR 0x5C \<notin> set (safeName siteId)
   \<and> audit_file cwd siteId = cwd @ [''data'', ''audits'', safeName siteId @ ''.json'']
   \<and> path_suffix (audit_file cwd siteId) ''.tmp''
       = cwd @ [''data'', ''audits'', safeName siteId @ ''.json.tmp'']
   \<and> AUDITS_DIR cwd = cwd @ [''data'', ''audits'']
   \<and> extends_by
         {OpExists (AUDITS_DIR cwd), OpMkdir (AUDITS_DIR cwd),
          OpExists (audit_file cwd siteId), OpRead (audit_file cwd siteId)}
         fs (snd (getAudit b cwd fs siteId))
   \<and> extends_by
         {OpExists (AUDITS_DIR cwd), OpMkdir (AUDITS_DIR cwd),
          OpWrite (path_suffix (audit_file cwd siteId) ''.tmp''),
          OpRename (path_suffix (audit_file cwd siteId) ''.tmp'') (audit_file cwd siteId)}
         fs (snd (saveAudit b cwd fs siteId r))"
proof -
  have bs: "\<not> safe_char (CHR 0x5C)" by (simp add: safe_char_def)
  have "CHR 0x5C \<notin> set (safeName siteId)"
    using bs by (auto simp: safeName_def)
  moreover have "extends_by
         {OpExists (AUDITS_DIR cwd), OpMkdir (AUDITS_DIR cwd),
          OpExists (audit_file cwd siteId), OpRead (audit_file cwd siteId)}
         fs (snd (getAudit b cwd fs siteId))"
    by (rule getAudit_extends) simp_all
  moreover have "extends_by
         {OpExists (AUDITS_DIR cwd), OpMkdir (AUDITS_DIR cwd),
          OpWrite (path_suffix (audit_file cwd siteId) ''.tmp''),
          OpRename (path_suffix (audit_file cwd siteId) ''.tmp'') (audit_file cwd siteId)}
         fs (snd (saveAudit b cwd fs siteId r))"
    by (rule saveAudit_extends) simp_all
  ultimately show ?thesis
    using safeName_no_separator [of siteId] audit_file_eq [of cwd siteId]
      audit_tmp_eq [of cwd siteId] AUDITS_DIR_eq [of cwd]
    by (simp add: safeName_def)
qed

theorem storage_paths_confined_witness:
  "audit_file example_cwd ''../../etc/passwd''
     = example_cwd @ [''data'', ''audits'', safeName ''../../etc/passwd'' @ ''.json'']
   \<and> safeName ''../../etc/passwd'' = ''.._.._etc_passwd''
   \<and> extends_by
         {OpExists (AUDITS_DIR example_cwd), OpMkdir (AUDITS_DIR example_cwd),
          OpExists (audit_file example_cwd ''../../etc/passwd''),
          OpRead (audit_file example_cwd ''../../etc/passwd'')}
         empty_files (snd (getAudit example_builtins example_cwd empty_files ''../../etc/passwd''))"
proof -
  have n: "safeName ''../../etc/passwd'' = ''.._.._etc_passwd''" by code_simp
  from storage_paths_confined
    [where siteId = "''../../etc/passwd''" and cwd = example_cwd and fs = empty_files
       and b = example_builtins and r = "JObj []"]
  show ?thesis using n by blast
qed

text \<open>
  The claim as stated fails for \<open>saveAudit\<close>: besides the file \<open>shop.example.json\<close> it
  writes the file \<open>shop.example.json.tmp\<close>.
\<close>

theorem storage_paths_counterexample:
  "audit_file example_cwd ''shop.example''
     = [''srv'', ''app'', ''data'', ''audits'', ''shop.example.json'']
   \<and> new_ops empty_files
        (snd (saveAudit example_builtins example_cwd empty_files ''shop.example'' (JObj [])))
     = [OpExists [''srv'', ''app'', ''data'', ''audits''],
        OpMkdir [''srv'', ''app'', ''data'', ''audits''],
        OpWrite [''srv'', ''app'', ''data'', ''audits'', ''shop.example.json.tmp''],
        OpRename [''srv'', ''app'', ''data'', ''audits'', ''shop.example.json.tmp'']
                 [''srv'', ''app'', ''data'', ''audits'', ''shop.example.json'']]"
  by code_simp

section \<open>Properties of findAuditByIdOrSite\<close>

lemma scan_records_find: "scan_records b ident vs = find (record_matches b ident) vs"
  by (induction vs) simp_all





lemma record_skipped_when_siteId_throws:
  "siteId_equals b ident v = Inl e \<Longrightarrow> \<not> record_matches b ident v"
  by (simp add: record_matches_def)

lemma record_skipped_when_url_throws:
  "siteId_equals b ident v = Inr False \<Longrightarrow> url_equals b ident v = Inl e \<Longrightarrow>
   \<not> record_matches b ident v"
  by (simp add: record_matches_def)

text \<open>
  A record whose \<open>meta.siteId\<close> is the object \<open>{toString: 1}\<close> is passed over, although
  its \<open>meta.url\<close> equals the identifier.
\<close>

lemma record_skipped_example:
  "\<not> record_matches example_builtins ''https://shop.example/''
       (JObj [(''meta'', JObj [(''siteId'', JObj [(''toString'', JNum 1)]),
                               (''url'', JStr ''https://shop.example/'')])])"
  by code_simp




section \<open>Properties of lib/fetcher.js\<close>

text \<open>
  C9. \<open>fetchWithTimeout\<close> fails exactly when the underlying \<open>fetch\<close> rejects (a
  network-level error, or the abort raised by the timeout), and then with the same
  error. For a response of any status it returns a result with that status and with
  \<open>ok\<close> true exactly for 200 to 299, so \<open>ok\<close> is false for every 4xx and 5xx status. The
  result's text is \<open>null\<close> unless the content-type header contains \<open>text\<close>, \<open>json\<close>,
  \<open>html\<close> or \<open>xml\<close> and reading the body succeeded, in which case it is the body.
\<close>

theorem fetchWithTimeout_contract:
  "(\<forall>e. fetchWithTimeout outcome t = Inl e \<longleftrightarrow> outcome = Rejected e)
   \<and> (\<forall>res. outcome = Resolved res \<longrightarrow>
        (\<exists>r. fetchWithTimeout outcome t = Inr r
            \<and> status r = res_status res
            \<and> ok r = (200 \<le> res_status res \<and> res_status res \<le> 299)
            \<and> (400 \<le> res_status res \<and> res_status res \<le> 599 \<longrightarrow> \<not> ok r)
            \<and> (\<forall>txt. result_text r = Some txt \<longrightarrow>
                  text_like (content_type res) \<and> res_body res = Inr txt)
            \<and> (\<not> text_like (content_type res) \<or> (\<exists>e. res_body res = Inl e)
                  \<longrightarrow> result_text r = None)))"
  by (cases outcome)
     (auto simp: fetchWithTimeout_def content_type_def response_ok_def Let_def
           split: option.splits sum.splits if_splits)

theorem fetchWithTimeout_contract_witness:
  "\<exists>r. fetchWithTimeout
          (Resolved \<lparr>res_status = 404, res_headers = [(''content-type'', ''text/html'')],
                     res_url = ''https://shop.example/missing'', res_body = Inr ''Not Found''\<rparr>) 35
        = Inr r
      \<and> status r = 404 \<and> \<not> ok r"
proof -
  let ?res = "\<lparr>res_status = 404, res_headers = [(''content-type'', ''text/html'')],
               res_url = ''https://shop.example/missing'', res_body = Inr ''Not Found''\<rparr>"
  have s: "res_status ?res = 404" by simp
  from fetchWithTimeout_contract [of "Resolved ?res" 35]
  have "\<exists>r. fetchWithTimeout (Resolved ?res) 35 = Inr r
            \<and> status r = res_status ?res
            \<and> ok r = (200 \<le> res_status ?res \<and> res_status ?res \<le> 299)"
    by blast
  then show ?thesis using s by auto
qed

section \<open>Properties of answerQuery\<close>

lemma collect_Inr:
  "\<forall>r \<in> set rs. \<exists>x. r = Inr x \<Longrightarrow> \<exists>xs. collect rs = Inr xs"
proof (induction rs)
  case Nil
  then show ?case by simp
next
  case (Cons r rs)
  then obtain x where "r = Inr x" by auto
  moreover from Cons obtain xs where "collect rs = Inr xs" by auto
  ultimately show ?case by simp
qed

lemma collect_map_member:
  "collect (map f ks) = Inr cs \<Longrightarrow> c \<in> set cs \<Longrightarrow> \<exists>k \<in> set ks. f k = Inr c"
proof (induction ks arbitrary: cs)
  case Nil
  then show ?case by simp
next
  case (Cons k ks)
  from Cons.prems(1) obtain x xs where fk: "f k = Inr x" and rest: "collect (map f ks) = Inr xs"
    and cs: "cs = x # xs"
    by (cases "f k"; cases "collect (map f ks)") auto
  show ?case
  proof (cases "c = x")
    case True
    with fk show ?thesis by auto
  next
    case False
    with Cons.prems(2) cs have "c \<in> set xs" by simp
    with Cons.IH [OF rest] show ?thesis by auto
  qed
qed

lemma convertible_string: "convertible b (JStr t)"
  by (simp add: convertible_def)

lemma convertible_text: "convertible b v \<Longrightarrow> \<exists>t. js_String b v = Inr t"
  by (cases "js_String b v") (simp_all add: convertible_def)

lemma property_text_converts:
  assumes "\<forall>v \<in> snd ` set relevant. convertible b v"
  shows "\<exists>t. property_text b relevant k = Inr t"
proof (cases "map_of relevant k")
  case None
  then show ?thesis by (simp add: property_text_def)
next
  case (Some v)
  then have "(k, v) \<in> set relevant" by (rule map_of_SomeD)
  then have "v \<in> snd ` set relevant" by force
  with assms have "convertible b v" by blast
  then show ?thesis using Some convertible_text by (simp add: property_text_def)
qed

lemma cite_converts:
  assumes "\<forall>v \<in> snd ` set relevant. convertible b v"
  shows "\<exists>c. cite b relevant n k = Inr c"
  using property_text_converts [OF assms, of k] by (auto simp: cite_def)

lemma citations_convert:
  assumes "\<forall>v \<in> snd ` set relevant. convertible b v"
  shows "\<exists>cs. collect (map (cite b relevant n) ks) = Inr cs"
  by (rule collect_Inr) (use cite_converts [OF assms] in auto)

lemma joined_values_converts:
  assumes "\<forall>v \<in> snd ` set relevant. convertible b v"
  shows "\<exists>t. joined_values b relevant = Inr t"
proof -
  have "\<exists>ts. collect (map (\<lambda>v. if v = JNull then Inr [] else js_String b v) (map snd relevant))
          = Inr ts"
    by (rule collect_Inr) (use assms convertible_text in auto)
  then show ?thesis by (auto simp: joined_values_def)
qed

lemma user_prompt_converts:
  assumes "\<forall>v \<in> snd ` set relevant. convertible b v"
  shows "\<exists>usr. user_prompt b relevant q = Inr usr"
proof -
  have "\<exists>ts. collect (map (property_text b relevant) (take 30 (map fst relevant))) = Inr ts"
    by (rule collect_Inr) (use property_text_converts [OF assms] in auto)
  then show ?thesis by (auto simp: user_prompt_def)
qed

lemma fallback_converts:
  assumes "\<forall>v \<in> snd ` set relevant. convertible b v"
  shows "\<exists>a. fallbackAnswerFromSnippets b relevant q = Inr a"
proof -
  from citations_convert [OF assms] obtain cs where
    "collect (map (cite b relevant 300) (take 6 (map fst relevant))) = Inr cs" by blast
  moreover from joined_values_converts [OF assms] obtain t where
    "joined_values b relevant = Inr t" by blast
  ultimately show ?thesis by (simp add: fallbackAnswerFromSnippets_def Let_def)
qed

lemma urgency_cases:
  "(if m3 then ''Medium''
    else if m2 then (if (if m1 then ''Medium'' else ''Low'') = ''High'' then ''High'' else ''Medium'')
    else (if m1 then ''Medium'' else ''Low'')) \<in> {''Low'', ''Medium'', ''High''}"
  by simp

lemma fallback_fields:
  assumes "fallbackAnswerFromSnippets b relevant q = Inr a"
  shows "answer a \<noteq> []" and "urgency a \<in> {''Low'', ''Medium'', ''High''}"
    and "collect (map (cite b relevant 300) (take 6 (map fst relevant))) = Inr (citations a)"
proof -
  from assms obtain cs t where cs:
    "collect (map (cite b relevant 300) (take 6 (map fst relevant))) = Inr cs"
    and t: "joined_values b relevant = Inr t"
    by (auto simp: fallbackAnswerFromSnippets_def split: sum.splits)
  from assms cs t show "answer a \<noteq> []"
    by (auto simp: fallbackAnswerFromSnippets_def Let_def)
  from assms cs t show "collect (map (cite b relevant 300) (take 6 (map fst relevant))) = Inr (citations a)"
    by (auto simp: fallbackAnswerFromSnippets_def Let_def)
  from assms cs t have "urgency a = (if matches_words [''content-security-policy'', ''csp'', ''hsts'',
                                       ''x-frame-options'', ''x-content-type-options''] (toLowerCase t) then ''Medium''
    else if matches_words [''lcp'', ''largest contentful paint'', ''ttfb'',
                                       ''long ttfb'', ''time to first byte''] (toLowerCase t) then (if (if matches_words [''404'', ''not found'', ''broken''] (toLowerCase t) then ''Medium'' else ''Low'') = ''High'' then ''High'' else ''Medium'')
    else (if matches_words [''404'', ''not found'', ''broken''] (toLowerCase t) then ''Medium'' else ''Low''))"
    unfolding fallbackAnswerFromSnippets_def Let_def by auto
  then show "urgency a \<in> {''Low'', ''Medium'', ''High''}"
    using urgency_cases by presburger
qed

lemma fallback_answer:
  assumes "fallbackAnswerFromSnippets b relevant q = Inr a"
  shows "answer a \<noteq> [] \<and> urgency a \<in> {''Low'', ''Medium'', ''High''}
    \<and> (\<forall>c \<in> set (citations a). section_key c \<in> fst ` set relevant)"
proof -
  note f = fallback_fields [OF assms]
  have "section_key c \<in> fst ` set relevant" if "c \<in> set (citations a)" for c
  proof -
    from collect_map_member [OF f(3) that] obtain k where
      k: "k \<in> set (take 6 (map fst relevant))" and c: "cite b relevant 300 k = Inr c" by blast
    from c have "section_key c = k" by (auto simp: cite_def split: sum.splits)
    moreover from k have "k \<in> set (map fst relevant)" by (rule in_set_takeD)
    ultimately show ?thesis by simp
  qed
  with f(1,2) show ?thesis by simp
qed

lemma try_providers_none:
  "\<forall>c \<in> set cs. unavailable c sys usr limit \<Longrightarrow> try_providers cs sys usr limit = None"
  by (induction cs) (auto simp: unavailable_def Let_def split: sum.splits)

text \<open>
  When no conversion of a value of the evidence throws and every provider of the chain
  is unavailable, \<open>answerQuery\<close> returns the fallback answer.
\<close>

lemma fallback_when_convertible:
  assumes q: "query \<noteq> []"
    and conv: "\<forall>v \<in> snd ` set relevantJson. convertible b v"
    and down: "\<forall>c \<in> set callers. \<forall>usr. user_prompt b relevantJson query = Inr usr \<longrightarrow>
       unavailable c system_prompt usr (if limit = 0 then 500 else limit)"
  shows "\<exists>a. answerQuery b callers relevantJson query limit = Inr (FallbackAnswer a)
     \<and> answer a \<noteq> []
     \<and> urgency a \<in> {''Low'', ''Medium'', ''High''}
     \<and> (\<forall>c \<in> set (citations a). section_key c \<in> fst ` set relevantJson)"
proof -
  from citations_convert [OF conv] obtain cs where cs:
    "collect (map (cite b relevantJson 400) (take 8 (map fst relevantJson))) = Inr cs" by blast
  from user_prompt_converts [OF conv] obtain usr where usr:
    "user_prompt b relevantJson query = Inr usr" by blast
  from fallback_converts [OF conv] obtain a where a:
    "fallbackAnswerFromSnippets b relevantJson query = Inr a" by blast
  have "\<forall>c \<in> set callers. unavailable c system_prompt usr (if limit = 0 then 500 else limit)"
    using down usr by blast
  then have "try_providers callers system_prompt usr (if limit = 0 then 500 else limit) = None"
    by (rule try_providers_none)
  then have "answerQuery b callers relevantJson query limit = Inr (FallbackAnswer a)"
    using q cs usr a by (simp add: answerQuery_def)
  then show ?thesis
    using fallback_answer [OF a] by blast
qed

text \<open>
  The conversion is not caught in \<open>answerQuery\<close>: on a map that holds the object
  \<open>{toString: 1}\<close>, which is no text and which the chat endpoint never stores in its
  evidence, \<open>answerQuery\<close> throws the type error of \<open>String\<close>.
\<close>

lemma answerQuery_throws_on_unconvertible_value:
  "answerQuery example_builtins [] [(''k'', JObj [(''toString'', JNum 1)])] ''what?'' 0
     = Inl (TypeError ''Cannot convert object to primitive value'')"
  by code_simp

text \<open>
  C5. The evidence map that the chat endpoint builds (\<open>selectRelevantSnippets\<close> of
  pages/api/chat-analyst.js) holds a string under every key. For every evidence map of
  strings and every non-empty query, when every provider of the chain is unavailable
  (no credential, a call that throws, or a blank response), \<open>answerQuery\<close> returns
  normally with the fallback answer: its answer text is not empty, its urgency is one
  of Low, Medium and High, and the section of every citation is a key of the evidence
  map.
\<close>

theorem answerQuery_fallback:
  assumes q: "query \<noteq> []"
    and strings: "\<forall>v \<in> snd ` set relevantJson. \<exists>t. v = JStr t"
    and down: "\<forall>c \<in> set callers. \<forall>usr. user_prompt b relevantJson query = Inr usr \<longrightarrow>
       unavailable c system_prompt usr (if limit = 0 then 500 else limit)"
  shows "\<exists>a. answerQuery b callers relevantJson query limit = Inr (FallbackAnswer a)
     \<and> answer a \<noteq> []
     \<and> urgency a \<in> {''Low'', ''Medium'', ''High''}
     \<and> (\<forall>c \<in> set (citations a). section_key c \<in> fst ` set relevantJson)"
proof -
  have "\<forall>v \<in> snd ` set relevantJson. convertible b v"
  proof
    fix v assume "v \<in> snd ` set relevantJson"
    with strings obtain t where "v = JStr t" by blast
    then show "convertible b v" by (simp add: convertible_def)
  qed
  with q show ?thesis
    using down by (rule fallback_when_convertible)
qed

theorem answerQuery_fallback_witness:
  "\<exists>a. answerQuery example_builtins
          [\<lparr>provider_name = ''openai'', enabled = False,
            call = (\<lambda>s u n. Inl (JsError ''OPENAI_API_KEY not set''))\<rparr>,
           \<lparr>provider_name = ''gemini'', enabled = True,
            call = (\<lambda>s u n. Inl (JsError ''Gemini error 503''))\<rparr>,
           \<lparr>provider_name = ''deepseek'', enabled = True,
            call = (\<lambda>s u n. Inr ''  '')\<rparr>]
          [(''security'', JStr ''Missing HSTS header''), (''seo.findings'', JStr ''404 Not Found'')]
          ''what should I fix first?'' 0
        = Inr (FallbackAnswer a)
      \<and> answer a \<noteq> []
      \<and> urgency a \<in> {''Low'', ''Medium'', ''High''}
      \<and> (\<forall>c \<in> set (citations a).
            section_key c \<in> fst ` set [(''security'', JStr ''Missing HSTS header''),
                                        (''seo.findings'', JStr ''404 Not Found'')])"
proof -
  have q: "''what should I fix first?'' \<noteq> []" by simp
  show ?thesis
    by (rule answerQuery_fallback [OF q])
       (simp_all add: unavailable_def trim_def js_whitespace_def)
qed

end
